theory Spec2Isabelle
  imports Main "HOL-Library.AList"
begin

section \<open>Errors\<close>

text \<open>
  The code throws plain \<^verbatim>\<open>new Error(msg)\<close> objects and tells failures apart by their
  message (and, for wallet requests, by the numeric \<^verbatim>\<open>code\<close> field the provider puts
  on its errors). An error value carries both.
\<close>

record js_error =
  code :: "int option"
  message :: string

definition Error :: "string \<Rightarrow> js_error" where
  "Error msg = \<lparr>code = None, message = msg\<rparr>"

section \<open>Security and resilience layer: constants\<close>

definition MAX_RETRIES :: int where
  "MAX_RETRIES = 3"

definition RETRY_DELAY :: int where
  "RETRY_DELAY = 1000"

definition RATE_LIMIT_WINDOW :: int where
  "RATE_LIMIT_WINDOW = 60000"

definition MAX_REQUESTS_PER_WINDOW :: nat where
  "MAX_REQUESTS_PER_WINDOW = 100"

section \<open>Rate limiter\<close>

text \<open>
  \<^verbatim>\<open>requestLog\<close> is a module-level array of millisecond timestamps, empty when the
  module is loaded. \<^verbatim>\<open>checkRateLimit\<close> reads the clock once (\<^verbatim>\<open>Date.now()\<close>, here the
  argument \<open>now\<close>), rewrites the array to the entries newer than the window start, and
  either throws or pushes \<open>now\<close>. The model takes the array and returns it updated;
  the thrown error is the \<open>Inl\<close> result.
\<close>

definition checkRateLimit :: "int \<Rightarrow> int list \<Rightarrow> (js_error + unit) \<times> int list" where
  "checkRateLimit now requestLog =
     (let windowStart = now - RATE_LIMIT_WINDOW;
          recentRequests = filter (\<lambda>t. t > windowStart) requestLog
      in if length recentRequests \<ge> MAX_REQUESTS_PER_WINDOW
         then (Inl (Error ''Rate limit exceeded. Please wait.''), recentRequests)
         else (Inr (), recentRequests @ [now]))"

text \<open>
  A sequence of checks, one per clock reading, threading the array through. The second
  component collects, in order, the readings of the calls that were let through.
\<close>

fun run_checks :: "int list \<times> int list \<Rightarrow> int list \<Rightarrow> int list \<times> int list" where
  "run_checks (requestLog, admitted) [] = (requestLog, admitted)"
| "run_checks (requestLog, admitted) (now # nows) =
     (case checkRateLimit now requestLog of
        (Inl e, requestLog') \<Rightarrow> run_checks (requestLog', admitted) nows
      | (Inr u, requestLog') \<Rightarrow> run_checks (requestLog', admitted @ [now]) nows)"

text \<open>The calls let through whose reading lies in the window of length \<open>W\<close> ending at \<open>T\<close>.\<close>

definition in_window :: "int \<Rightarrow> int list \<Rightarrow> int list" where
  "in_window T ts = filter (\<lambda>t. T - RATE_LIMIT_WINDOW < t \<and> t \<le> T) ts"

text \<open>
  The invariant carried along a run with non-decreasing clock readings: the array is
  exactly the admitted readings newer than the last window start, no admitted reading
  is later than the last reading, and no window holds more than the ceiling.
\<close>

definition limiter_inv :: "int \<Rightarrow> int list \<Rightarrow> int list \<Rightarrow> bool" where
  "limiter_inv prev requestLog admitted \<longleftrightarrow>
     requestLog = filter (\<lambda>t. t > prev - RATE_LIMIT_WINDOW) admitted
     \<and> (\<forall>t \<in> set admitted. t \<le> prev)
     \<and> (\<forall>T. length (in_window T admitted) \<le> MAX_REQUESTS_PER_WINDOW)"

section \<open>Strings and values of the host language\<close>

text \<open>
  A JavaScript string is a sequence of 16-bit code units; the model uses \<open>string\<close>,
  whose characters are the code units below 256 (ASCII and Latin-1). On these, the
  regular-expression classes and \<^verbatim>\<open>trim\<close> of the source are as written below:
  \<^verbatim>\<open>\w\<close> is \<^verbatim>\<open>[A-Za-z0-9_]\<close>, the \<^verbatim>\<open>i\<close> flag identifies a letter of the pattern
  with its two ASCII cases only, and the white space removed by \<^verbatim>\<open>trim\<close> is TAB, LF,
  VT, FF, CR, SPACE and NO-BREAK SPACE.
\<close>

definition digit_char :: "nat \<Rightarrow> char" where
  "digit_char k = ''0123456789abcdef'' ! k"

text \<open>\<^verbatim>\<open>String(n)\<close> and \<^verbatim>\<open>n.toString(16)\<close> of a non-negative integer.\<close>

fun dec_string :: "nat \<Rightarrow> string" where
  "dec_string n = (if n < 10 then [digit_char n] else dec_string (n div 10) @ [digit_char (n mod 10)])"

fun hex_string :: "nat \<Rightarrow> string" where
  "hex_string n = (if n < 16 then [digit_char n] else hex_string (n div 16) @ [digit_char (n mod 16)])"

declare dec_string.simps [simp del]

declare hex_string.simps [simp del]

definition int_string :: "int \<Rightarrow> string" where
  "int_string i = (if i < 0 then CHR ''-'' # dec_string (nat (- i)) else dec_string (nat i))"

text \<open>
  The values a field of a request object takes in this program: absent, \<^verbatim>\<open>null\<close>,
  a boolean, \<^verbatim>\<open>NaN\<close> (what \<^verbatim>\<open>parseInt\<close> of an empty slider value gives), an
  integral number, or a string. \<open>JInt n\<close> stands for the Number \<open>n\<close> with
  \<open>\<bar>n\<bar> < 10^21\<close>, the range in which the language writes a Number in plain decimal
  digits; fractions and larger magnitudes are outside the model.
\<close>

datatype jsval = JUndefined | JNull | JBool bool | JNaN | JInt int | JStr string

definition is_space :: "char \<Rightarrow> bool" where
  "is_space c \<longleftrightarrow> (of_char c :: nat) \<in> {9, 10, 11, 12, 13, 32, 160}"

definition is_digit :: "char \<Rightarrow> bool" where
  "is_digit c \<longleftrightarrow> 48 \<le> (of_char c :: nat) \<and> (of_char c :: nat) \<le> 57"

definition is_upper :: "char \<Rightarrow> bool" where
  "is_upper c \<longleftrightarrow> 65 \<le> (of_char c :: nat) \<and> (of_char c :: nat) \<le> 90"

definition is_lower :: "char \<Rightarrow> bool" where
  "is_lower c \<longleftrightarrow> 97 \<le> (of_char c :: nat) \<and> (of_char c :: nat) \<le> 122"

definition is_word_char :: "char \<Rightarrow> bool" where
  "is_word_char c \<longleftrightarrow> is_upper c \<or> is_lower c \<or> is_digit c \<or> c = CHR ''_''"

definition ascii_lower :: "char \<Rightarrow> char" where
  "ascii_lower c = (if is_upper c then char_of ((of_char c :: nat) + 32) else c)"

text \<open>Does \<open>s\<close> begin with the lower-case pattern \<open>pat\<close>, letter case ignored?\<close>

definition starts_with_ci :: "string \<Rightarrow> string \<Rightarrow> bool" where
  "starts_with_ci pat s \<longleftrightarrow> length pat \<le> length s \<and> map ascii_lower (take (length pat) s) = pat"

text \<open>\<^verbatim>\<open>String.prototype.trim\<close>.\<close>

definition trim :: "string \<Rightarrow> string" where
  "trim s = rev (dropWhile is_space (rev (dropWhile is_space s)))"

text \<open>\<^verbatim>\<open>String.prototype.includes\<close>: \<open>pat\<close> occurs somewhere in \<open>s\<close>.\<close>

fun str_includes :: "string \<Rightarrow> string \<Rightarrow> bool" where
  "str_includes [] pat = (pat = [])"
| "str_includes (c # cs) pat = (take (length pat) (c # cs) = pat \<or> str_includes cs pat)"

section \<open>Input sanitizer\<close>

text \<open>
  \<^verbatim>\<open>.replace(/[<>]/g, '')\<close>: every angle bracket is deleted, nothing else.
\<close>

definition strip_angle_brackets :: "string \<Rightarrow> string" where
  "strip_angle_brackets s = filter (\<lambda>c. c \<noteq> CHR ''<'' \<and> c \<noteq> CHR ''>'') s"

text \<open>
  \<^verbatim>\<open>.replace(/javascript:/gi, '')\<close>: a global replace scans left to right; where the
  pattern matches, the eleven matched characters are dropped and the scan resumes after
  them; elsewhere one character is copied. The output is not scanned again.
\<close>

fun strip_javascript :: "string \<Rightarrow> string" where
  "strip_javascript [] = []"
| "strip_javascript (c # cs) =
     (if starts_with_ci ''javascript:'' (c # cs) then strip_javascript (drop 10 cs)
      else c # strip_javascript cs)"

text \<open>
  \<^verbatim>\<open>/on\w+=/gi\<close> at the head of \<open>s\<close>: the letters \<^verbatim>\<open>on\<close>, then the longest run of
  word characters, which must be non-empty and followed by \<^verbatim>\<open>=\<close> (a shorter run
  would be followed by a word character, so backtracking finds nothing more). The
  result is the length of the match.
\<close>

definition on_handler_match :: "string \<Rightarrow> nat option" where
  "on_handler_match s =
     (if starts_with_ci ''on'' s then
        (let w = takeWhile is_word_char (drop 2 s);
             after = dropWhile is_word_char (drop 2 s)
         in if w \<noteq> [] \<and> take 1 after = ''='' then Some (2 + length w + 1) else None)
      else None)"

fun strip_on_handlers :: "string \<Rightarrow> string" where
  "strip_on_handlers [] = []"
| "strip_on_handlers (c # cs) =
     (case on_handler_match (c # cs) of
        Some n \<Rightarrow> strip_on_handlers (drop (n - 1) cs)
      | None \<Rightarrow> c # strip_on_handlers cs)"

definition sanitizeInput :: "jsval \<Rightarrow> jsval" where
  "sanitizeInput input =
     (case input of
        JStr s \<Rightarrow>
          JStr (take 1000 (trim (strip_on_handlers (strip_javascript (strip_angle_brackets s)))))
      | _ \<Rightarrow> input)"

section \<open>Number parsing and JSON text\<close>

text \<open>\<^verbatim>\<open>ToString\<close> of a value, as \<^verbatim>\<open>parseInt\<close> applies it to its argument.\<close>

definition js_to_string :: "jsval \<Rightarrow> string" where
  "js_to_string v =
     (case v of
        JUndefined \<Rightarrow> ''undefined''
      | JNull \<Rightarrow> ''null''
      | JBool b \<Rightarrow> (if b then ''true'' else ''false'')
      | JNaN \<Rightarrow> ''NaN''
      | JInt n \<Rightarrow> int_string n
      | JStr s \<Rightarrow> s)"

definition digit_value :: "char \<Rightarrow> nat" where
  "digit_value c =
     (if is_digit c then (of_char c :: nat) - 48
      else if is_lower c then (of_char c :: nat) - 87
      else (of_char c :: nat) - 55)"

definition is_hex_digit :: "char \<Rightarrow> bool" where
  "is_hex_digit c \<longleftrightarrow> is_digit c
     \<or> (97 \<le> (of_char c :: nat) \<and> (of_char c :: nat) \<le> 102)
     \<or> (65 \<le> (of_char c :: nat) \<and> (of_char c :: nat) \<le> 70)"

definition digits_value :: "nat \<Rightarrow> string \<Rightarrow> nat" where
  "digits_value radix ds = foldl (\<lambda>acc c. radix * acc + digit_value c) 0 ds"

text \<open>
  \<^verbatim>\<open>parseInt(v)\<close> with no radix: leading white space is skipped, one sign is read, a
  \<^verbatim>\<open>0x\<close> or \<^verbatim>\<open>0X\<close> prefix selects radix 16, and the longest run of digits is the
  number; with no digit the result is \<^verbatim>\<open>NaN\<close>, here \<open>None\<close>. The language rounds
  the number to a double; that rounding is monotone and fixes every integer up to
  \<open>2^53\<close>, so the clamp applied to the result below does not see it.
\<close>

definition parseInt :: "jsval \<Rightarrow> int option" where
  "parseInt v =
     (let s = dropWhile is_space (js_to_string v);
          negative = (take 1 s = ''-'');
          s1 = (if take 1 s = ''-'' \<or> take 1 s = ''+'' then drop 1 s else s);
          hex = (take 2 s1 = ''0x'' \<or> take 2 s1 = ''0X'');
          s2 = (if hex then drop 2 s1 else s1);
          z = takeWhile (if hex then is_hex_digit else is_digit) s2;
          n = int (digits_value (if hex then 16 else 10) z)
      in if z = [] then None else Some (if negative then - n else n))"

text \<open>
  \<^verbatim>\<open>JSON.stringify\<close> of a string: quotes, with the two-character escapes for
  backspace, tab, line feed, form feed, carriage return, the quote and the backslash,
  and \<^verbatim>\<open>\u00XX\<close> for the other control characters.
\<close>

definition json_escape_char :: "char \<Rightarrow> string" where
  "json_escape_char c =
     (let n = (of_char c :: nat) in
      if n = 8 then [CHR 0x5C, CHR ''b'']
      else if n = 9 then [CHR 0x5C, CHR ''t'']
      else if n = 10 then [CHR 0x5C, CHR ''n'']
      else if n = 12 then [CHR 0x5C, CHR ''f'']
      else if n = 13 then [CHR 0x5C, CHR ''r'']
      else if n = 34 then [CHR 0x5C, CHR 0x22]
      else if n = 92 then [CHR 0x5C, CHR 0x5C]
      else if n < 32 then [CHR 0x5C, CHR ''u'', CHR ''0'', CHR ''0'', digit_char (n div 16), digit_char (n mod 16)]
      else [c])"

definition json_string :: "string \<Rightarrow> string" where
  "json_string s = [CHR 0x22] @ concat (map json_escape_char s) @ [CHR 0x22]"

text \<open>
  The JSON text of a property value; \<open>None\<close> where \<^verbatim>\<open>JSON.stringify\<close> leaves the
  property out (an \<^verbatim>\<open>undefined\<close> value). \<^verbatim>\<open>NaN\<close> is written \<^verbatim>\<open>null\<close>.
\<close>

definition json_value :: "jsval \<Rightarrow> string option" where
  "json_value v =
     (case v of
        JUndefined \<Rightarrow> None
      | JNull \<Rightarrow> Some ''null''
      | JBool b \<Rightarrow> Some (if b then ''true'' else ''false'')
      | JNaN \<Rightarrow> Some ''null''
      | JInt n \<Rightarrow> Some (int_string n)
      | JStr s \<Rightarrow> Some (json_string s))"

fun json_members :: "(string \<times> jsval) list \<Rightarrow> string list" where
  "json_members [] = []"
| "json_members ((k, v) # kvs) =
     (case json_value v of
        None \<Rightarrow> json_members kvs
      | Some t \<Rightarrow> (json_string k @ '':'' @ t) # json_members kvs)"

fun join_commas :: "string list \<Rightarrow> string" where
  "join_commas [] = []"
| "join_commas [x] = x"
| "join_commas (x # y # ys) = x @ '','' @ join_commas (y # ys)"

definition JSON_stringify :: "(string \<times> jsval) list \<Rightarrow> string" where
  "JSON_stringify obj = ''{'' @ join_commas (json_members obj) @ ''}''"

section \<open>Resilient fetch wrapper\<close>

text \<open>
  The options object of a request, with the fields this program sets. \<open>headers\<close> is
  the object merged over the fixed content type.
\<close>

record fetch_options =
  http_method :: "string option"
  body :: "string option"
  headers :: "(string \<times> string) list"

definition no_options :: fetch_options where
  "no_options = \<lparr>http_method = None, body = None, headers = []\<rparr>"

text \<open>
  \<^verbatim>\<open>{ 'Content-Type': 'application/json', ...options.headers }\<close>: a later key
  overwrites an earlier one in place, a new key is added at the end.
\<close>

definition merge_headers :: "(string \<times> string) list \<Rightarrow> (string \<times> string) list" where
  "merge_headers hs =
     foldl (\<lambda>obj kv. AList.update (fst kv) (snd kv) obj) [(''Content-Type'', ''application/json'')] hs"

text \<open>
  What the network does with one attempt is an input of the model. Either the
  \<^verbatim>\<open>fetch\<close> promise rejects (a network error, or the abort raised by the 15000 ms
  timer), or a response arrives with a status and a body whose \<^verbatim>\<open>json()\<close> either
  rejects or yields the parsed value. The environment \<open>env\<close> gives, for the \<open>i\<close>-th
  attempt, the clock reading seen by the rate limiter and this outcome.
\<close>

datatype 'j fetch_outcome = Rejected js_error | Responded nat "js_error + 'j"

text \<open>What the wrapper does that can be seen from outside: requests and waits, in order.\<close>

datatype event = Fetch string fetch_options | Delay int

text \<open>\<^verbatim>\<open>response.ok\<close>: a status from 200 to 299.\<close>

definition response_ok :: "nat \<Rightarrow> bool" where
  "response_ok status \<longleftrightarrow> 200 \<le> status \<and> status \<le> 299"

text \<open>The body of the \<^verbatim>\<open>try\<close> block: the value returned or the error thrown.\<close>

definition attempt :: "'j fetch_outcome \<Rightarrow> js_error + 'j" where
  "attempt outcome =
     (case outcome of
        Rejected e \<Rightarrow> Inl e
      | Responded status parsed \<Rightarrow>
          if \<not> response_ok status then Inl (Error (''HTTP '' @ dec_string status))
          else parsed)"

text \<open>
  \<^verbatim>\<open>secureFetch(url, options, retries)\<close>. The rate-limit check stands before the
  \<^verbatim>\<open>try\<close> block, so its error leaves the function at once; so does the error of the
  recursive call, which is returned from inside the \<^verbatim>\<open>catch\<close> block. The result
  is the value or error, the request log, and the events in order.
\<close>

function secureFetch ::
  "(nat \<Rightarrow> int \<times> 'j fetch_outcome) \<Rightarrow> nat \<Rightarrow> int list \<Rightarrow> string \<Rightarrow> fetch_options \<Rightarrow> int
     \<Rightarrow> (js_error + 'j) \<times> int list \<times> event list" where
  "secureFetch env i requestLog url options retries =
     (case checkRateLimit (fst (env i)) requestLog of
        (Inl limited, requestLog') \<Rightarrow> (Inl limited, requestLog', [])
      | (Inr u, requestLog') \<Rightarrow>
          (let request = Fetch url (options\<lparr>headers := merge_headers (headers options)\<rparr>) in
           case attempt (snd (env i)) of
             Inr parsed \<Rightarrow> (Inr parsed, requestLog', [request])
           | Inl error \<Rightarrow>
               if retries > 0 \<and> \<not> str_includes (message error) ''Rate limit'' then
                 (case secureFetch env (Suc i) requestLog' url options (retries - 1) of
                    (result, requestLog'', events) \<Rightarrow>
                      (result, requestLog'',
                       request # Delay (RETRY_DELAY * (MAX_RETRIES - retries + 1)) # events))
               else (Inl error, requestLog', [request])))"
  by pat_completeness auto

termination
  by (relation "measure (\<lambda>(env, i, requestLog, url, options, retries). nat retries)") auto

declare secureFetch.simps [simp del]


fun requests :: "event list \<Rightarrow> (string \<times> fetch_options) list" where
  "requests [] = []"
| "requests (Delay d # es) = requests es"
| "requests (Fetch u opts # es) = (u, opts) # requests es"




section \<open>API service\<close>

definition API_BASE :: string where
  "API_BASE = ''http://127.0.0.1:3333/api/v1''"

record alert_data =
  disasterType :: jsval
  region :: jsval
  riskScore :: jsval

text \<open>
  The object \<^verbatim>\<open>sanitized\<close> of \<^verbatim>\<open>createAlert\<close>, as its properties in order.
  \<^verbatim>\<open>parseInt(x) || 0\<close> is 0 when the parse gives \<^verbatim>\<open>NaN\<close> or 0.
\<close>

definition createAlert_sanitized :: "alert_data \<Rightarrow> (string \<times> jsval) list" where
  "createAlert_sanitized data =
     [(''disasterType'', sanitizeInput (disasterType data)),
      (''region'', sanitizeInput (region data)),
      (''riskScore'',
         JInt (min 100 (max 0 (case parseInt (riskScore data) of None \<Rightarrow> 0 | Some n \<Rightarrow> n))))]"

definition createAlert ::
  "(nat \<Rightarrow> int \<times> 'j fetch_outcome) \<Rightarrow> nat \<Rightarrow> int list \<Rightarrow> alert_data
     \<Rightarrow> (js_error + 'j) \<times> int list \<times> event list" where
  "createAlert env i requestLog data =
     secureFetch env i requestLog (API_BASE @ ''/disaster/alerts'')
       \<lparr>http_method = Some ''POST'',
        body = Some (JSON_stringify (createAlert_sanitized data)),
        headers = []\<rparr>
       MAX_RETRIES"

text \<open>
  \<^verbatim>\<open>api.getBalance\<close>. \<^verbatim>\<open>ethers.isAddress\<close> belongs to the ethers library and is a
  parameter here.
\<close>

definition api_getBalance ::
  "(string \<Rightarrow> bool) \<Rightarrow> (nat \<Rightarrow> int \<times> 'j fetch_outcome) \<Rightarrow> nat \<Rightarrow> int list \<Rightarrow> string
     \<Rightarrow> (js_error + 'j) \<times> int list \<times> event list" where
  "api_getBalance isAddress env i requestLog address =
     (if \<not> isAddress address then (Inl (Error ''Invalid address''), requestLog, [])
      else secureFetch env i requestLog (API_BASE @ ''/token/balance/'' @ address)
             no_options MAX_RETRIES)"

section \<open>Contract configuration\<close>

text \<open>
  The tables of the configuration module, as the entries written in their object
  literals. The source reads them by property lookup, which is \<open>js_get\<close> below.
\<close>

record currency =
  currency_name :: string
  currency_symbol :: string
  currency_decimals :: nat

record network =
  chainId :: nat
  name :: string
  rpcUrl :: string
  explorer :: string
  currency :: currency

definition NETWORKS :: "string \<Rightarrow> network option" where
  "NETWORKS = map_of
     [(''polygon'',
        \<lparr>chainId = 137, name = ''Polygon Mainnet'', rpcUrl = ''https://polygon-rpc.com'',
         explorer = ''https://polygonscan.com'',
         currency = \<lparr>currency_name = ''MATIC'', currency_symbol = ''MATIC'', currency_decimals = 18\<rparr>\<rparr>),
      (''amoy'',
        \<lparr>chainId = 80002, name = ''Polygon Amoy Testnet'',
         rpcUrl = ''https://rpc-amoy.polygon.technology'',
         explorer = ''https://www.oklink.com/amoy'',
         currency = \<lparr>currency_name = ''MATIC'', currency_symbol = ''MATIC'', currency_decimals = 18\<rparr>\<rparr>),
      (''hardhat'',
        \<lparr>chainId = 31337, name = ''Hardhat Local'', rpcUrl = ''http://127.0.0.1:8545'',
         explorer = '''',
         currency = \<lparr>currency_name = ''ETH'', currency_symbol = ''ETH'', currency_decimals = 18\<rparr>\<rparr>)]"

definition DEFAULT_NETWORK :: string where
  "DEFAULT_NETWORK = ''amoy''"

definition CONTRACT_ADDRESSES :: "string \<Rightarrow> (string \<times> string) list option" where
  "CONTRACT_ADDRESSES = map_of
     [(''hardhat'',
        [(''KAIToken'', ''''),
         (''KAIRevenue'', ''''),
         (''KAIGovernance'', ''''),
         (''ClimateAlertStaking'', ''''),
         (''KAI_Oracle'', ''''),
         (''KaiHealth'', ''''),
         (''KAI_Agriculture'', ''''),
         (''KAI_LawEvidence'', ''''),
         (''KaiDisasterResponse'', ''''),
         (''KAIVesting'', '''')]),
      (''amoy'',
        [(''KAIToken'', ''''),
         (''KAIRevenue'', ''''),
         (''KAIGovernance'', ''''),
         (''ClimateAlertStaking'', ''''),
         (''KAI_Oracle'', ''''),
         (''KaiHealth'', ''''),
         (''KAI_Agriculture'', ''''),
         (''KAI_LawEvidence'', ''''),
         (''KaiDisasterResponse'', ''''),
         (''KAIVesting'', '''')]),
      (''polygon'',
        [(''KAIToken'', ''''),
         (''KAIRevenue'', ''''),
         (''KAIGovernance'', ''''),
         (''ClimateAlertStaking'', ''''),
         (''KAI_Oracle'', ''''),
         (''KaiHealth'', ''''),
         (''KAI_Agriculture'', ''''),
         (''KAI_LawEvidence'', ''''),
         (''KaiDisasterResponse'', ''''),
         (''KAIVesting'', '''')])]"

definition ABIS :: "string \<Rightarrow> string list option" where
  "ABIS = map_of
     [(''KAIToken'',
        [''function name() view returns (string)'',
         ''function symbol() view returns (string)'',
         ''function decimals() view returns (uint8)'',
         ''function totalSupply() view returns (uint256)'',
         ''function balanceOf(address account) view returns (uint256)'',
         ''function transfer(address to, uint256 amount) returns (bool)'',
         ''function approve(address spender, uint256 amount) returns (bool)'',
         ''function allowance(address owner, address spender) view returns (uint256)'',
         ''function transferFrom(address from, address to, uint256 amount) returns (bool)'',
         ''function totalBurned() view returns (uint256)'',
         ''function burnedByAddress(address account) view returns (uint256)'',
         ''function getPillarBurnRate(uint8 pillarId) view returns (uint256)'',
         ''function directBurn(uint256 amount, uint8 pillarId, string reason)'',
         ''event Transfer(address indexed from, address indexed to, uint256 value)'',
         ''event Approval(address indexed owner, address indexed spender, uint256 value)'',
         ''event PillarBurn(address indexed burner, uint8 indexed pillarId, uint256 amount, string reason)'']),
      (''KAIRevenue'',
        [''function kaiToken() view returns (address)'',
         ''function treasury() view returns (address)'',
         ''function totalRevenue() view returns (uint256)'',
         ''function monthlyRevenue() view returns (uint256)'',
         ''function ALERT_BASIC() view returns (uint256)'',
         ''function ALERT_URGENT() view returns (uint256)'',
         ''function SUBSCRIPTION_BASIC() view returns (uint256)'',
         ''function SUBSCRIPTION_PREMIUM() view returns (uint256)'',
         ''function buyAlert(uint8 alertType) returns (uint256)'',
         ''function subscribe(uint8 plan)'',
         ''function hasActiveSubscription(address user) view returns (bool)'',
         ''function getUserStats(address user) view returns (uint256 alertCount, uint256 totalSpent, bool isSubscribed)'',
         ''event RevenueCollected(uint256 amount, uint256 totalRevenue)'',
         ''event SubscriptionCreated(address indexed user, uint8 plan, uint256 expiresAt)'']),
      (''KAIGovernance'',
        [''function kaiToken() view returns (address)'',
         ''function proposalCount() view returns (uint256)'',
         ''function quorumThreshold() view returns (uint256)'',
         ''function votingPeriod() view returns (uint256)'',
         ''function propose(string title, string description, uint8 proposalType) returns (uint256)'',
         ''function vote(uint256 proposalId, bool support)'',
         ''function executeProposal(uint256 proposalId)'',
         ''function getProposal(uint256 proposalId) view returns (tuple)'',
         ''function hasVoted(uint256 proposalId, address voter) view returns (bool)'',
         ''event ProposalCreated(uint256 indexed proposalId, address proposer, string title)'',
         ''event VoteCast(uint256 indexed proposalId, address indexed voter, bool support, uint256 weight)'',
         ''event ProposalExecuted(uint256 indexed proposalId)'']),
      (''ClimateAlertStaking'',
        [''function kaiToken() view returns (address)'',
         ''function minimumStake() view returns (uint256)'',
         ''function stakingDuration() view returns (uint256)'',
         ''function totalStaked() view returns (uint256)'',
         ''function stake(uint256 amount)'',
         ''function unstake()'',
         ''function claimRewards()'',
         ''function getStakeInfo(address staker) view returns (uint256 amount, uint256 timestamp, uint256 rewards)'',
         ''function calculateRewards(address staker) view returns (uint256)'',
         ''event Staked(address indexed user, uint256 amount)'',
         ''event Unstaked(address indexed user, uint256 amount)'',
         ''event RewardsClaimed(address indexed user, uint256 amount)'']),
      (''KAI_Oracle'',
        [''function getRiskLevel(string region, uint8 riskType) view returns (uint8)'',
         ''function getLatestData(string region) view returns (tuple)'',
         ''function isHighRisk(string region) view returns (bool)'',
         ''event DataUpdated(string indexed region, uint8 riskType, uint8 level)'',
         ''event AlertTriggered(string indexed region, uint8 severity)'']),
      (''KaiHealth'',
        [''function inspectionFee() view returns (uint256)'',
         ''function getInspection(uint256 inspectionId) view returns (tuple)'',
         ''function requestInspection(string facilityName, string location) payable returns (uint256)'',
         ''function certifyFacility(uint256 inspectionId, string certificateHash)'',
         ''event InspectionRequested(uint256 indexed id, address requester, string facilityName)'',
         ''event InspectionCompleted(uint256 indexed id, bool passed)'',
         ''event FacilityCertified(uint256 indexed id, string certificateHash)'']),
      (''KAI_Agriculture'',
        [''function getPolicyDetails(uint256 policyId) view returns (tuple)'',
         ''function createPolicy(string cropType, uint256 coverage, string region) payable returns (uint256)'',
         ''function claimPolicy(uint256 policyId, string evidenceHash)'',
         ''event PolicyCreated(uint256 indexed policyId, address farmer, string cropType, uint256 coverage)'',
         ''event ClaimFiled(uint256 indexed policyId, string evidenceHash)'',
         ''event ClaimPaid(uint256 indexed policyId, uint256 amount)'']),
      (''KAI_LawEvidence'',
        [''function getEvidence(bytes32 evidenceHash) view returns (tuple)'',
         ''function submitEvidence(bytes32 evidenceHash, string description) returns (uint256)'',
         ''function verifyEvidence(bytes32 evidenceHash) view returns (bool exists, uint256 timestamp, address submitter)'',
         ''event EvidenceSubmitted(bytes32 indexed hash, address indexed submitter, uint256 timestamp)'',
         ''event EvidenceVerified(bytes32 indexed hash)'']),
      (''KaiDisasterResponse'',
        [''function emergencyFund() view returns (uint256)'',
         ''function getIncident(uint256 incidentId) view returns (tuple)'',
         ''function reportIncident(uint8 disasterType, string location, uint8 severity, string description) returns (uint256)'',
         ''function requestAid(uint256 incidentId, uint256 amount, string reason)'',
         ''event IncidentReported(uint256 indexed id, uint8 disasterType, string location, uint8 severity)'',
         ''event AidRequested(uint256 indexed incidentId, address requester, uint256 amount)'',
         ''event AidDisbursed(uint256 indexed incidentId, address recipient, uint256 amount)'']),
      (''KAIVesting'',
        [''function token() view returns (address)'',
         ''function getVestingSchedule(address beneficiary) view returns (tuple)'',
         ''function releasable(address beneficiary) view returns (uint256)'',
         ''function release(address beneficiary)'',
         ''event VestingScheduleCreated(address indexed beneficiary, uint256 amount, uint256 cliff, uint256 duration)'',
         ''event TokensReleased(address indexed beneficiary, uint256 amount)''])]"

text \<open>
  Property lookup \<^verbatim>\<open>table[key]\<close> on an object literal. It finds the entry written in
  the literal; failing that, the member of that name which every object inherits from
  \<^verbatim>\<open>Object.prototype\<close> (a function, or for \<^verbatim>\<open>__proto__\<close> the prototype object:
  a truthy value that is neither a string nor an array and has none of the fields of the
  tables' entries); failing that, \<^verbatim>\<open>undefined\<close>, here \<open>None\<close>. The inherited names are
  those of the language standard, with its annex for browsers.
\<close>

definition object_prototype_members :: "string list" where
  "object_prototype_members =
     [''constructor'', ''hasOwnProperty'', ''isPrototypeOf'', ''propertyIsEnumerable'',
      ''toLocaleString'', ''toString'', ''valueOf'', ''__proto__'', ''__defineGetter__'',
      ''__defineSetter__'', ''__lookupGetter__'', ''__lookupSetter__'']"

datatype 'a property = Own 'a | Inherited string

definition js_get :: "(string \<Rightarrow> 'a option) \<Rightarrow> string \<Rightarrow> 'a property option" where
  "js_get table key =
     (case table key of
        Some v \<Rightarrow> Some (Own v)
      | None \<Rightarrow> if key \<in> set object_prototype_members then Some (Inherited key) else None)"

text \<open>
  \<^verbatim>\<open>getContractConfig()\<close> is only ever called with its default argument; the
  address table it returns is the one of \<open>DEFAULT_NETWORK\<close>.
\<close>

record contract_config =
  config_network :: "network option"
  addresses :: "string \<Rightarrow> string option"
  abis :: "string \<Rightarrow> string list option"

definition getContractConfig :: contract_config where
  "getContractConfig =
     \<lparr>config_network = NETWORKS DEFAULT_NETWORK,
      addresses = (case CONTRACT_ADDRESSES DEFAULT_NETWORK of
                     None \<Rightarrow> Map.empty | Some table \<Rightarrow> map_of table),
      abis = ABIS\<rparr>"

section \<open>Contract hooks: provider, signer, contract instance\<close>

text \<open>
  The browser and the library are inputs: whether a wallet is injected
  (\<^verbatim>\<open>window.ethereum\<close>), what \<^verbatim>\<open>provider.getSigner()\<close> settles to, and the errors
  \<^verbatim>\<open>new ethers.Contract\<close> throws when it is handed an inherited member where the
  address string should be (the target is tested first) and where the interface list
  should be. A contract instance is the triple
  handed to \<^verbatim>\<open>new ethers.Contract\<close>. The steps that touch the wallet are recorded
  in order.
\<close>

record 's wallet_env =
  has_ethereum :: bool
  signer_result :: "js_error + 's"
  target_error :: js_error
  interface_error :: js_error

datatype 's runner = ProviderRunner | SignerRunner "'s option"

record 's contract =
  target :: string
  interface :: "string list"
  contract_runner :: "'s runner"

datatype wallet_step = ProviderLookup | SignerRequest

definition getProvider :: "'s wallet_env \<Rightarrow> bool" where
  "getProvider env = has_ethereum env"

definition getSigner :: "'s wallet_env \<Rightarrow> (js_error + 's option) \<times> wallet_step list" where
  "getSigner env =
     (if \<not> getProvider env then (Inr None, [ProviderLookup])
      else (case signer_result env of
              Inl e \<Rightarrow> (Inl e, [ProviderLookup, SignerRequest])
            | Inr s \<Rightarrow> (Inr (Some s), [ProviderLookup, SignerRequest])))"

text \<open>\<^verbatim>\<open>new ethers.Contract(address, abi, runner)\<close> on the two values looked up.\<close>

definition new_Contract ::
  "'s wallet_env \<Rightarrow> string property \<Rightarrow> string list property \<Rightarrow> 's runner
     \<Rightarrow> js_error + 's contract" where
  "new_Contract env address abi runner =
     (case address of
        Own a \<Rightarrow>
          (case abi of
             Own fragments \<Rightarrow>
               Inr \<lparr>target = a, interface = fragments, contract_runner = runner\<rparr>
           | Inherited m \<Rightarrow> Inl (interface_error env))
      | Inherited m \<Rightarrow> Inl (target_error env))"

text \<open>
  \<^verbatim>\<open>getContract(contractName, withSigner)\<close>, with the configuration it reads as an
  argument. \<^verbatim>\<open>!address\<close> holds for \<^verbatim>\<open>undefined\<close> and for the empty string;
  \<^verbatim>\<open>!abi\<close> holds for \<^verbatim>\<open>undefined\<close> only, an array being truthy whatever its
  length; an inherited member is truthy in both places.
\<close>

definition getContract ::
  "contract_config \<Rightarrow> 's wallet_env \<Rightarrow> string \<Rightarrow> bool
     \<Rightarrow> (js_error + 's contract) \<times> wallet_step list" where
  "getContract config env contractName withSigner =
     (case js_get (addresses config) contractName of
        None \<Rightarrow> (Inl (Error (''Contract '' @ contractName @ '' not configured'')), [])
      | Some address \<Rightarrow>
          (case js_get (abis config) contractName of
             None \<Rightarrow> (Inl (Error (''Contract '' @ contractName @ '' not configured'')), [])
           | Some abi \<Rightarrow>
               if address = Own ''''
               then (Inl (Error (''Contract '' @ contractName @ '' not configured'')), [])
               else if \<not> getProvider env
               then (Inl (Error ''No wallet provider found''), [ProviderLookup])
               else if withSigner then
                 (case getSigner env of
                    (Inl e, steps) \<Rightarrow> (Inl e, ProviderLookup # steps)
                  | (Inr signer, steps) \<Rightarrow>
                      (new_Contract env address abi (SignerRunner signer),
                       ProviderLookup # steps))
               else (new_Contract env address abi ProviderRunner, [ProviderLookup])))"

section \<open>Wallet hook: network switch\<close>

text \<open>
  The state of \<^verbatim>\<open>useWallet\<close>: \<^verbatim>\<open>account\<close>, \<^verbatim>\<open>chainId\<close>, \<^verbatim>\<open>isConnecting\<close> and
  \<^verbatim>\<open>error\<close>.
\<close>

record wallet_state =
  account :: "string option"
  wallet_chainId :: "int option"
  isConnecting :: bool
  wallet_error :: "string option"

text \<open>
  The two requests \<^verbatim>\<open>switchNetwork\<close> sends to the wallet: the method
  \<^verbatim>\<open>wallet_switchEthereumChain\<close> with its \<^verbatim>\<open>chainId\<close>, and
  \<^verbatim>\<open>wallet_addEthereumChain\<close> with \<^verbatim>\<open>chainId\<close>, \<^verbatim>\<open>chainName\<close>, \<^verbatim>\<open>rpcUrls\<close>,
  \<^verbatim>\<open>nativeCurrency\<close> and \<^verbatim>\<open>blockExplorerUrls\<close>, in this order.
\<close>

datatype wallet_request =
    wallet_switchEthereumChain string
  | wallet_addEthereumChain string string "string list" currency "string list"

text \<open>
  \<open>ethereum\<close> answers a request with success or with the error thrown inside the
  \<^verbatim>\<open>try\<close> block. With no wallet injected, evaluating \<^verbatim>\<open>window.ethereum.request\<close>
  throws there as well, an error without a \<^verbatim>\<open>code\<close>; that case is an \<open>ethereum\<close>
  answering every request with such an error.

  A network identifier that names an inherited member passes the test \<^verbatim>\<open>!network\<close>;
  the member has no \<^verbatim>\<open>chainId\<close>, so building the switch request throws a
  \<^verbatim>\<open>TypeError\<close> inside the \<^verbatim>\<open>try\<close> block before anything is sent. That error has
  no \<^verbatim>\<open>code\<close>; its message is worded by the engine and is the argument
  \<open>type_error\<close>.
\<close>

definition chain_id_hex :: "network \<Rightarrow> string" where
  "chain_id_hex net = ''0x'' @ hex_string (chainId net)"

definition switchNetwork ::
  "string \<Rightarrow> (wallet_request \<Rightarrow> js_error + unit) \<Rightarrow> wallet_state \<Rightarrow> string
     \<Rightarrow> bool \<times> wallet_state \<times> wallet_request list" where
  "switchNetwork type_error ethereum st networkId =
     (case js_get NETWORKS networkId of
        None \<Rightarrow> (False, st\<lparr>wallet_error := Some ''Unknown network''\<rparr>, [])
      | Some (Inherited m) \<Rightarrow> (False, st\<lparr>wallet_error := Some type_error\<rparr>, [])
      | Some (Own net) \<Rightarrow>
          (let switch = wallet_switchEthereumChain (chain_id_hex net) in
           case ethereum switch of
             Inr u \<Rightarrow> (True, st, [switch])
           | Inl switchError \<Rightarrow>
               if code switchError = Some 4902 then
                 (let add = wallet_addEthereumChain (chain_id_hex net) (name net) [rpcUrl net]
                              (currency net)
                              (if explorer net \<noteq> '''' then [explorer net] else [])
                  in case ethereum add of
                       Inr u \<Rightarrow> (True, st, [switch, add])
                     | Inl addError \<Rightarrow>
                         (False, st\<lparr>wallet_error := Some (message addError)\<rparr>, [switch, add]))
               else (False, st\<lparr>wallet_error := Some (message switchError)\<rparr>, [switch])))"

section \<open>Token hook: balance\<close>

text \<open>
  The state of \<^verbatim>\<open>useKAIToken\<close> (\<^verbatim>\<open>loading\<close>, \<^verbatim>\<open>error\<close>) and the answers of the
  token contract to the two calls \<^verbatim>\<open>getBalance\<close> makes. \<^verbatim>\<open>ethers.formatUnits\<close>
  is library code and a parameter: called inside the \<^verbatim>\<open>try\<close> block, it returns the
  text or throws.
\<close>

record token_state =
  loading :: bool
  token_error :: "string option"

record token_calls =
  balanceOf :: "string \<Rightarrow> js_error + int"
  decimals_call :: "js_error + nat"

definition getBalance ::
  "(int \<Rightarrow> nat \<Rightarrow> js_error + string) \<Rightarrow> contract_config \<Rightarrow> 's wallet_env \<Rightarrow> token_calls
     \<Rightarrow> token_state \<Rightarrow> string \<Rightarrow> string \<times> token_state" where
  "getBalance format_units config env calls st address =
     (let st1 = st\<lparr>loading := True, token_error := None\<rparr>;
          tried =
            (case fst (getContract config env ''KAIToken'' False) of
               Inl err \<Rightarrow> Inl err
             | Inr contract \<Rightarrow>
                 (case balanceOf calls address of
                    Inl err \<Rightarrow> Inl err
                  | Inr balance \<Rightarrow>
                      (case decimals_call calls of
                         Inl err \<Rightarrow> Inl err
                       | Inr decimals \<Rightarrow> format_units balance decimals)))
      in case tried of
           Inl err \<Rightarrow> (''0'', st1\<lparr>token_error := Some (message err), loading := False\<rparr>)
         | Inr text \<Rightarrow> (text, st1\<lparr>loading := False\<rparr>))"

section \<open>Token amounts: decimal strings and fixed-point integers\<close>

text \<open>
  Modelled from the spec: \<^verbatim>\<open>ethers.parseUnits\<close> and \<^verbatim>\<open>ethers.formatUnits\<close>, which the
  token hooks call and which belong to the ethers library, not to the source files of
  this repository. The spec says of them: a token amount is shown as a decimal string
  and placed in a transaction as a fixed-point integer, the quantity scaled by
  \<open>10 ^ decimals\<close>; the conversion is exact, with no floating-point rounding; and
  \<^verbatim>\<open>"123.456"\<close> with 18 decimals is the integer 123456000000000000000 and comes
  back as \<^verbatim>\<open>"123.456"\<close>.

  Accordingly: a decimal string is an optional minus sign, digits, and optionally a
  point and digits, with a digit somewhere. Parsing pads the fraction with zeros to
  \<open>decimals\<close> digits and reads sign, whole part and fraction as one integer; a fraction
  with more than \<open>decimals\<close> digits, other than zeros, is rejected. Formatting writes
  the integer with the point \<open>decimals\<close> digits from the right and drops the zeros at
  the end of the fraction, keeping one digit; with \<open>decimals = 0\<close> it writes the
  integer. All arithmetic is on unbounded integers.
\<close>

definition parseUnits :: "string \<Rightarrow> nat \<Rightarrow> int option" where
  "parseUnits value decimals =
     (let negative = (take 1 value = ''-'');
          unsigned = (if negative then drop 1 value else value);
          whole = takeWhile is_digit unsigned;
          rest = dropWhile is_digit unsigned;
          fraction = (if take 1 rest = ''.'' then drop 1 rest else rest)
      in if \<not> list_all is_digit fraction \<or> (whole = [] \<and> fraction = []) then None
         else if \<not> list_all (\<lambda>c. c = CHR ''0'') (drop decimals fraction) then None
         else
           (let padded = take decimals (fraction @ replicate (decimals - length fraction) CHR ''0'');
                magnitude = int (digits_value 10 (whole @ padded))
            in Some (if negative then - magnitude else magnitude)))"

definition strip_trailing_zeros :: "string \<Rightarrow> string" where
  "strip_trailing_zeros s =
     (let t = rev (dropWhile (\<lambda>c. c = CHR ''0'') (rev s)) in if t = [] then ''0'' else t)"

definition formatUnits :: "int \<Rightarrow> nat \<Rightarrow> string" where
  "formatUnits value decimals =
     (if decimals = 0 then int_string value
      else
        (let digits = dec_string (nat \<bar>value\<bar>);
             padded = replicate (Suc decimals - length digits) CHR ''0'' @ digits;
             whole = take (length padded - decimals) padded;
             fraction = drop (length padded - decimals) padded
         in (if value < 0 then ''-'' else '''') @ whole @ ''.'' @ strip_trailing_zeros fraction))"

text \<open>
  The spelling of a decimal string from its parts, the integer it stands for at a given
  decimal count, and its normal spelling: a minus sign only before a value other than
  zero, the whole part without zeros in front (one digit at least), and, where the
  decimal count is positive, a point and the fraction without zeros at the end (one
  digit at least).
\<close>

definition decimal_text :: "bool \<Rightarrow> string \<Rightarrow> bool \<Rightarrow> string \<Rightarrow> string" where
  "decimal_text negative whole pointed fraction =
     (if negative then ''-'' else []) @ whole @ (if pointed then ''.'' @ fraction else [])"

definition scaled :: "nat \<Rightarrow> string \<Rightarrow> string \<Rightarrow> nat" where
  "scaled decimals whole fraction =
     digits_value 10 whole * 10 ^ decimals
     + digits_value 10 fraction * 10 ^ (decimals - length fraction)"

definition strip_leading_zeros :: "string \<Rightarrow> string" where
  "strip_leading_zeros s =
     (let t = dropWhile (\<lambda>c. c = CHR ''0'') s in if t = [] then ''0'' else t)"

definition normal_form :: "nat \<Rightarrow> bool \<Rightarrow> string \<Rightarrow> string \<Rightarrow> string" where
  "normal_form decimals negative whole fraction =
     (if negative \<and> scaled decimals whole fraction \<noteq> 0 then ''-'' else [])
     @ strip_leading_zeros whole
     @ (if decimals = 0 then [] else ''.'' @ strip_trailing_zeros fraction)"

section \<open>Environments used in the examples\<close>



text \<open>A server that answers at once.\<close>

definition answers :: "nat \<Rightarrow> int \<times> unit fetch_outcome" where
  "answers i = (int i * 10, Responded 200 (Inr ()))"

text \<open>A syntactic stand-in for the address test: \<^verbatim>\<open>0x\<close> and forty digits.\<close>

definition forty_digits :: "string \<Rightarrow> bool" where
  "forty_digits a \<longleftrightarrow> length a = 42 \<and> take 2 a = ''0x'' \<and> list_all is_digit (drop 2 a)"

definition the_alert :: alert_data where
  "the_alert =
     \<lparr>disasterType = JStr ''<script>flood</script>'', region = JStr ''  Lagos  '',
      riskScore = JInt 150\<rparr>"

text \<open>The shipped configuration with the token address filled in, as after deployment.\<close>

definition deployed :: contract_config where
  "deployed =
     getContractConfig
       \<lparr>addresses := (addresses getContractConfig)
          (''KAIToken'' \<mapsto> ''0x5FbDB2315678afecb367f032d93F642f64180aa3'')\<rparr>"

text \<open>A configuration whose only contract has an address and an interface without entries.\<close>

definition bare_interface :: contract_config where
  "bare_interface =
     \<lparr>config_network = NETWORKS DEFAULT_NETWORK,
      addresses = [''Probe'' \<mapsto> ''0x5FbDB2315678afecb367f032d93F642f64180aa3''],
      abis = [''Probe'' \<mapsto> []]\<rparr>"

text \<open>
  A wallet that hands out a signer, one whose user refuses, and no wallet; in each, the
  library's constructor rejects a target that is not an address.
\<close>

definition invalid_target :: js_error where
  "invalid_target = Error ''invalid value for Contract target''"

definition wallet_grants :: "unit wallet_env" where
  "wallet_grants =
     \<lparr>has_ethereum = True, signer_result = Inr (), target_error = invalid_target,
      interface_error = Error ''abi is not iterable''\<rparr>"

definition wallet_refuses :: "unit wallet_env" where
  "wallet_refuses =
     \<lparr>has_ethereum = True,
      signer_result = Inl \<lparr>code = Some 4001, message = ''User rejected the request.''\<rparr>,
      target_error = invalid_target,
      interface_error = Error ''abi is not iterable''\<rparr>"

definition no_wallet :: "unit wallet_env" where
  "no_wallet =
     \<lparr>has_ethereum = False, signer_result = Inl (Error ''unused''),
      target_error = invalid_target,
      interface_error = Error ''abi is not iterable''\<rparr>"

text \<open>
  A wallet that does not know the chain asked for (error 4902 on the switch request)
  and whose user then refuses to add it.
\<close>

definition unknown_chain_refused :: "wallet_request \<Rightarrow> js_error + unit" where
  "unknown_chain_refused request =
     (case request of
        wallet_switchEthereumChain c \<Rightarrow>
          Inl \<lparr>code = Some 4902, message = ''Unrecognized chain ID''\<rparr>
      | wallet_addEthereumChain c n rpcs cur exps \<Rightarrow>
          Inl \<lparr>code = Some 4001, message = ''User rejected the request.''\<rparr>)"

definition connected :: wallet_state where
  "connected =
     \<lparr>account = Some ''0x70997970C51812dc3A010C7d01b50e0d17dc79C8'',
      wallet_chainId = Some 137, isConnecting = False, wallet_error = None\<rparr>"

text \<open>
  A token of 18 decimals that reports a balance of zero, one whose node is down, one
  whose decimals call fails; a formatting call that answers with the rendering of the
  token-amount section, and one that throws; a token hook at rest, and a holder.
\<close>

definition holds_nothing :: token_calls where
  "holds_nothing = \<lparr>balanceOf = (\<lambda>a. Inr 0), decimals_call = Inr 18\<rparr>"

definition node_down :: token_calls where
  "node_down =
     \<lparr>balanceOf = (\<lambda>a. Inl (Error ''could not detect network'')),
      decimals_call = Inl (Error ''could not detect network'')\<rparr>"

definition decimals_down :: token_calls where
  "decimals_down =
     \<lparr>balanceOf = (\<lambda>a. Inr 5), decimals_call = Inl (Error ''call revert exception'')\<rparr>"

definition renders :: "int \<Rightarrow> nat \<Rightarrow> js_error + string" where
  "renders value decimals = Inr (formatUnits value decimals)"

definition format_throws :: "int \<Rightarrow> nat \<Rightarrow> js_error + string" where
  "format_throws value decimals = Inl (Error ''invalid fixed format'')"

definition idle :: token_state where
  "idle = \<lparr>loading = False, token_error = Some ''stale''\<rparr>"

definition holder :: string where
  "holder = ''0x70997970C51812dc3A010C7d01b50e0d17dc79C8''"

section \<open>Rate limiter: invariant\<close>

lemma purge_admitted:
  assumes "limiter_inv prev requestLog admitted" and "prev \<le> now"
  shows "filter (\<lambda>t. t > now - RATE_LIMIT_WINDOW) requestLog
         = filter (\<lambda>t. t > now - RATE_LIMIT_WINDOW) admitted"
proof -
  have "requestLog = filter (\<lambda>t. t > prev - RATE_LIMIT_WINDOW) admitted"
    using assms(1) by (simp add: limiter_inv_def)
  then have "filter (\<lambda>t. t > now - RATE_LIMIT_WINDOW) requestLog
             = filter (\<lambda>t. t > prev - RATE_LIMIT_WINDOW \<and> t > now - RATE_LIMIT_WINDOW) admitted"
    by simp
  also have "\<dots> = filter (\<lambda>t. t > now - RATE_LIMIT_WINDOW) admitted"
    using assms(2) by (intro filter_cong) auto
  finally show ?thesis .
qed

lemma purge_is_window:
  assumes "\<forall>t \<in> set admitted. t \<le> prev" and "prev \<le> now"
  shows "filter (\<lambda>t. t > now - RATE_LIMIT_WINDOW) admitted = in_window now admitted"
  unfolding in_window_def using assms by (intro filter_cong) auto

lemma window_after_admit:
  assumes inv: "limiter_inv prev requestLog admitted" and le: "prev \<le> now"
    and room: "length (filter (\<lambda>t. t > now - RATE_LIMIT_WINDOW) requestLog) < MAX_REQUESTS_PER_WINDOW"
  shows "length (in_window T (admitted @ [now])) \<le> MAX_REQUESTS_PER_WINDOW"
proof (cases "now \<le> T")
  case False
  then have "in_window T (admitted @ [now]) = in_window T admitted"
    by (simp add: in_window_def)
  then show ?thesis using inv by (simp add: limiter_inv_def)
next
  case True
  have bound: "\<forall>t \<in> set admitted. t \<le> prev"
    using inv by (simp add: limiter_inv_def)
  have "length (in_window T admitted)
        \<le> length (filter (\<lambda>t. t > now - RATE_LIMIT_WINDOW) admitted)"
  proof -
    have "in_window T admitted
          = filter (\<lambda>t. T - RATE_LIMIT_WINDOW < t \<and> t \<le> T)
              (filter (\<lambda>t. t > now - RATE_LIMIT_WINDOW) admitted)"
      unfolding in_window_def filter_filter using True by (intro filter_cong) auto
    then show ?thesis by (metis length_filter_le)
  qed
  also have "\<dots> < MAX_REQUESTS_PER_WINDOW"
    using room purge_admitted [OF inv le] by simp
  finally have "length (in_window T admitted) < MAX_REQUESTS_PER_WINDOW" .
  moreover have "length (in_window T (admitted @ [now])) \<le> Suc (length (in_window T admitted))"
    by (simp add: in_window_def)
  ultimately show ?thesis by simp
qed

lemma checkRateLimit_inv:
  assumes inv: "limiter_inv prev requestLog admitted" and le: "prev \<le> now"
  shows "case checkRateLimit now requestLog of
           (Inl e, requestLog') \<Rightarrow> limiter_inv now requestLog' admitted
         | (Inr u, requestLog') \<Rightarrow> limiter_inv now requestLog' (admitted @ [now])"
proof (cases "length (filter (\<lambda>t. t > now - RATE_LIMIT_WINDOW) requestLog) \<ge> MAX_REQUESTS_PER_WINDOW")
  case True
  then have "checkRateLimit now requestLog
             = (Inl (Error ''Rate limit exceeded. Please wait.''),
                filter (\<lambda>t. t > now - RATE_LIMIT_WINDOW) requestLog)"
    by (simp add: checkRateLimit_def Let_def)
  moreover have "limiter_inv now (filter (\<lambda>t. t > now - RATE_LIMIT_WINDOW) requestLog) admitted"
    using inv le purge_admitted [OF inv le] by (auto simp: limiter_inv_def)
  ultimately show ?thesis by simp
next
  case False
  then have room: "length (filter (\<lambda>t. t > now - RATE_LIMIT_WINDOW) requestLog) < MAX_REQUESTS_PER_WINDOW"
    by simp
  have "checkRateLimit now requestLog
        = (Inr (), filter (\<lambda>t. t > now - RATE_LIMIT_WINDOW) requestLog @ [now])"
    using False by (simp add: checkRateLimit_def Let_def)
  moreover have "limiter_inv now (filter (\<lambda>t. t > now - RATE_LIMIT_WINDOW) requestLog @ [now])
                   (admitted @ [now])"
    unfolding limiter_inv_def
  proof (intro conjI allI)
    show "filter (\<lambda>t. t > now - RATE_LIMIT_WINDOW) requestLog @ [now]
          = filter (\<lambda>t. t > now - RATE_LIMIT_WINDOW) (admitted @ [now])"
      using purge_admitted [OF inv le] by (simp add: RATE_LIMIT_WINDOW_def)
    show "\<forall>t \<in> set (admitted @ [now]). t \<le> now"
      using inv le by (auto simp: limiter_inv_def)
    show "length (in_window T (admitted @ [now])) \<le> MAX_REQUESTS_PER_WINDOW" for T
      by (rule window_after_admit [OF inv le room])
  qed
  ultimately show ?thesis by simp
qed

lemma run_checks_inv:
  assumes "limiter_inv prev requestLog admitted" and "sorted (prev # nows)"
  shows "limiter_inv (last (prev # nows)) (fst (run_checks (requestLog, admitted) nows))
           (snd (run_checks (requestLog, admitted) nows))"
  using assms
proof (induction nows arbitrary: prev requestLog admitted)
  case Nil
  then show ?case by simp
next
  case (Cons now nows)
  have le: "prev \<le> now" and srt: "sorted (now # nows)"
    using Cons.prems(2) by auto
  obtain r requestLog' where step: "checkRateLimit now requestLog = (r, requestLog')"
    by (cases "checkRateLimit now requestLog")
  show ?case
  proof (cases r)
    case (Inl e)
    then have "limiter_inv now requestLog' admitted"
      using checkRateLimit_inv [OF Cons.prems(1) le] step by simp
    from Cons.IH [OF this srt] show ?thesis
      using step Inl by simp
  next
    case (Inr u)
    then have "limiter_inv now requestLog' (admitted @ [now])"
      using checkRateLimit_inv [OF Cons.prems(1) le] step by simp
    from Cons.IH [OF this srt] show ?thesis
      using step Inr by simp
  qed
qed

lemma limiter_inv_init: "limiter_inv prev [] []"
  by (simp add: limiter_inv_def in_window_def)

lemma limiter_inv_log_bound:
  assumes "limiter_inv prev requestLog admitted"
  shows "length requestLog \<le> MAX_REQUESTS_PER_WINDOW"
    and "\<forall>t \<in> set requestLog. prev - RATE_LIMIT_WINDOW < t \<and> t \<le> prev"
proof -
  have "\<forall>t \<in> set admitted. t \<le> prev"
    using assms by (simp add: limiter_inv_def)
  then have "filter (\<lambda>t. t > prev - RATE_LIMIT_WINDOW) admitted = in_window prev admitted"
    by (rule purge_is_window) simp
  then have eq: "requestLog = in_window prev admitted"
    using assms by (simp add: limiter_inv_def)
  have "length (in_window prev admitted) \<le> MAX_REQUESTS_PER_WINDOW"
    using assms by (simp add: limiter_inv_def)
  then show "length requestLog \<le> MAX_REQUESTS_PER_WINDOW"
    using eq by simp
  show "\<forall>t \<in> set requestLog. prev - RATE_LIMIT_WINDOW < t \<and> t \<le> prev"
    unfolding eq in_window_def by simp
qed

section \<open>Rate limiter: claims\<close>

lemma run_checks_append:
  "run_checks state (xs @ ys) = run_checks (run_checks state xs) ys"
proof (induction xs arbitrary: state)
  case Nil
  show ?case by (cases state) simp
next
  case (Cons x xs)
  obtain requestLog admitted where st: "state = (requestLog, admitted)"
    by (cases state)
  show ?case
    unfolding st using Cons.IH
    by (cases "checkRateLimit x requestLog") (auto split: sum.splits)
qed

lemma run_checks_burst:
  assumes "j + k \<le> 100"
  shows "run_checks (replicate j t, replicate j t) (replicate k t)
         = (replicate (j + k) t, replicate (j + k) t)"
  using assms
proof (induction k arbitrary: j)
  case 0
  show ?case by simp
next
  case (Suc k)
  then have room: "j < 100" and rest: "Suc j + k \<le> 100"
    by simp_all
  have "checkRateLimit t (replicate j t) = (Inr (), replicate (Suc j) t)"
    using room
    by (simp add: checkRateLimit_def Let_def RATE_LIMIT_WINDOW_def MAX_REQUESTS_PER_WINDOW_def
        replicate_append_same)
  then have "run_checks (replicate j t, replicate j t) (replicate (Suc k) t)
             = run_checks (replicate (Suc j) t, replicate (Suc j) t) (replicate k t)"
    by (simp add: replicate_append_same)
  then show ?case
    using Suc.IH [OF rest] by simp
qed

text \<open>
  C2, as stated, fails for two reasons. The clock the limiter reads can step back: after
  100 calls at reading 0 and one at reading 60000, which empties the log, a call at
  reading 59999 is let through, and the window \<open>(-1, 59999]\<close> then holds 101 admitted
  calls. And the window the limiter keeps is open at its old end: with readings that
  never decrease, 100 calls at reading 0 and one at reading 60000 are all let through,
  101 calls with readings from 0 to 60000 inclusive.
\<close>

theorem rate_limiter_window_counterexample:
  "length (filter (\<lambda>t. 59999 - 60000 < t \<and> t \<le> 59999)
             (snd (run_checks ([], []) (replicate 100 0 @ [60000, 59999])))) = 101
   \<and> sorted (replicate 100 (0::int) @ [60000])
   \<and> length (filter (\<lambda>t. 60000 - 60000 \<le> t \<and> t \<le> 60000)
               (snd (run_checks ([], []) (replicate 100 0 @ [60000])))) = 101"
proof -
  have burst: "run_checks ([], []) (replicate 100 0) = (replicate 100 0, replicate 100 0)"
    using run_checks_burst [of 0 100 0] by simp
  have late: "checkRateLimit 60000 (replicate 100 0) = (Inr (), [60000])"
    by (simp add: checkRateLimit_def Let_def RATE_LIMIT_WINDOW_def MAX_REQUESTS_PER_WINDOW_def)
  have early: "checkRateLimit 59999 [60000] = (Inr (), [60000, 59999])"
    by (simp add: checkRateLimit_def Let_def RATE_LIMIT_WINDOW_def MAX_REQUESTS_PER_WINDOW_def)
  have two: "snd (run_checks ([], []) (replicate 100 0 @ [60000, 59999]))
             = replicate 100 0 @ [60000, 59999]"
    unfolding run_checks_append burst by (simp add: late early)
  have one: "snd (run_checks ([], []) (replicate 100 0 @ [60000]))
             = replicate 100 0 @ [60000]"
    unfolding run_checks_append burst by (simp add: late)
  have srt: "sorted (replicate 100 (0::int) @ [60000])"
    by (simp add: sorted_append)
  show ?thesis
    unfolding two one using srt by simp
qed

text \<open>
  C2, amended. With the clock readings of successive checks non-decreasing and the array
  empty at the start, the calls let through whose reading falls in any window
  \<open>(T - 60000, T]\<close>, open at its old end, number at most 100. A single check that
  keeps 100 or more entries after the purge fails with the rate-limit error and leaves
  the array as purged, without the new reading; a check that keeps fewer appends the
  reading and lets the call through.
\<close>

theorem rate_limiter_admits_at_most_ceiling:
  "(sorted nows \<longrightarrow>
      length (filter (\<lambda>t. T - 60000 < t \<and> t \<le> T) (snd (run_checks ([], []) nows))) \<le> 100)
   \<and> (100 \<le> length (filter (\<lambda>t. now - 60000 < t) requestLog) \<longrightarrow>
        checkRateLimit now requestLog
        = (Inl (Error ''Rate limit exceeded. Please wait.''),
           filter (\<lambda>t. now - 60000 < t) requestLog))
   \<and> (length (filter (\<lambda>t. now - 60000 < t) requestLog) < 100 \<longrightarrow>
        checkRateLimit now requestLog
        = (Inr (), filter (\<lambda>t. now - 60000 < t) requestLog @ [now]))"
proof (intro conjI impI)
  assume srt: "sorted nows"
  show "length (filter (\<lambda>t. T - 60000 < t \<and> t \<le> T) (snd (run_checks ([], []) nows))) \<le> 100"
  proof (cases nows)
    case Nil
    then show ?thesis by simp
  next
    case (Cons n ns)
    then have "sorted (n # nows)" using srt by simp
    from run_checks_inv [OF limiter_inv_init this]
    have "\<forall>T. length (in_window T (snd (run_checks ([], []) nows))) \<le> MAX_REQUESTS_PER_WINDOW"
      by (simp add: limiter_inv_def)
    then show ?thesis
      by (simp add: in_window_def RATE_LIMIT_WINDOW_def MAX_REQUESTS_PER_WINDOW_def)
  qed
next
  assume "100 \<le> length (filter (\<lambda>t. now - 60000 < t) requestLog)"
  then show "checkRateLimit now requestLog
        = (Inl (Error ''Rate limit exceeded. Please wait.''),
           filter (\<lambda>t. now - 60000 < t) requestLog)"
    by (simp add: checkRateLimit_def Let_def RATE_LIMIT_WINDOW_def MAX_REQUESTS_PER_WINDOW_def)
next
  assume "length (filter (\<lambda>t. now - 60000 < t) requestLog) < 100"
  then show "checkRateLimit now requestLog
        = (Inr (), filter (\<lambda>t. now - 60000 < t) requestLog @ [now])"
    by (simp add: checkRateLimit_def Let_def RATE_LIMIT_WINDOW_def MAX_REQUESTS_PER_WINDOW_def)
qed

text \<open>
  The same at concrete inputs: 101 checks at one clock reading (the window ending there
  holds at most 100 admitted calls), a full array (the check fails and the array is
  only purged) and an array holding one stale entry (the entry is dropped, the reading
  appended).
\<close>

theorem rate_limiter_admits_at_most_ceiling_witness:
  "sorted (replicate 101 (5::int))
   \<and> length (filter (\<lambda>t. 5 - 60000 < t \<and> t \<le> 5) (snd (run_checks ([], []) (replicate 101 5)))) \<le> 100
   \<and> 100 \<le> length (filter (\<lambda>t. 7 - 60000 < t) (replicate 100 (7::int)))
   \<and> checkRateLimit 7 (replicate 100 7)
      = (Inl (Error ''Rate limit exceeded. Please wait.''), replicate 100 7)
   \<and> length (filter (\<lambda>t. 70000 - 60000 < t) [0::int]) < 100
   \<and> checkRateLimit 70000 [0] = (Inr (), [70000])"
proof -
  have s: "sorted (replicate 101 (5::int))"
    by simp
  have full: "100 \<le> length (filter (\<lambda>t. 7 - 60000 < t) (replicate 100 (7::int)))"
    by simp
  have room: "length (filter (\<lambda>t. 70000 - 60000 < t) [0::int]) < 100"
    by simp
  note a = rate_limiter_admits_at_most_ceiling [of "replicate 101 5" 5 7 "replicate 100 7"]
  note b = rate_limiter_admits_at_most_ceiling [of "replicate 101 5" 5 70000 "[0]"]
  show ?thesis
    using s full room a b by simp
qed

text \<open>
  C9. Starting from the empty array, after any non-empty sequence of checks with
  non-decreasing clock readings the array holds at most 100 entries, and each entry
  \<open>t\<close> satisfies \<open>last - 60000 < t \<le> last\<close> for the reading \<open>last\<close> of the most
  recent check.
\<close>

theorem request_log_bounded:
  assumes "sorted nows" and "nows \<noteq> []"
  shows "length (fst (run_checks ([], []) nows)) \<le> 100
         \<and> (\<forall>t \<in> set (fst (run_checks ([], []) nows)).
              last nows - 60000 < t \<and> t \<le> last nows)"
proof -
  have "sorted (hd nows # nows)"
    using assms by (cases nows) auto
  from run_checks_inv [OF limiter_inv_init this]
  have inv: "limiter_inv (last nows) (fst (run_checks ([], []) nows))
               (snd (run_checks ([], []) nows))"
    using assms(2) by simp
  from limiter_inv_log_bound [OF inv] show ?thesis
    by (simp add: RATE_LIMIT_WINDOW_def MAX_REQUESTS_PER_WINDOW_def)
qed

theorem request_log_bounded_witness:
  "sorted [0, 10, 70000 :: int] \<and> [0, 10, 70000 :: int] \<noteq> []
   \<and> length (fst (run_checks ([], []) [0, 10, 70000])) \<le> 100
   \<and> list_all (\<lambda>t. last [0, 10, 70000] - 60000 < t \<and> t \<le> last [0, 10, 70000])
        (fst (run_checks ([], []) [0, 10, 70000]))
   \<and> fst (run_checks ([], []) [0, 10, 70000]) = [70000]"
proof -
  have h: "sorted [0, 10, 70000 :: int]" "[0, 10, 70000 :: int] \<noteq> []"
    by simp_all
  have e: "fst (run_checks ([], []) [0, 10, 70000]) = [70000]"
    by (simp add: checkRateLimit_def Let_def RATE_LIMIT_WINDOW_def MAX_REQUESTS_PER_WINDOW_def)
  show ?thesis
    using h e request_log_bounded [OF h] by (simp add: list_all_iff)
qed

section \<open>Resilient fetch wrapper: lemmas\<close>

lemma secureFetch_limited:
  assumes "checkRateLimit (fst (env i)) requestLog = (Inl limited, requestLog')"
  shows "secureFetch env i requestLog url options retries = (Inl limited, requestLog', [])"
  using assms by (simp add: secureFetch.simps)

lemma secureFetch_success:
  assumes "checkRateLimit (fst (env i)) requestLog = (Inr u, requestLog')"
    and "attempt (snd (env i)) = Inr parsed"
  shows "secureFetch env i requestLog url options retries
         = (Inr parsed, requestLog',
            [Fetch url (options\<lparr>headers := merge_headers (headers options)\<rparr>)])"
  using assms by (simp add: secureFetch.simps)

lemma secureFetch_give_up:
  assumes "checkRateLimit (fst (env i)) requestLog = (Inr u, requestLog')"
    and "attempt (snd (env i)) = Inl error"
    and "\<not> (retries > 0 \<and> \<not> str_includes (message error) ''Rate limit'')"
  shows "secureFetch env i requestLog url options retries
         = (Inl error, requestLog',
            [Fetch url (options\<lparr>headers := merge_headers (headers options)\<rparr>)])"
  using assms by (auto simp: secureFetch.simps Let_def)

lemma secureFetch_retry:
  assumes "checkRateLimit (fst (env i)) requestLog = (Inr u, requestLog')"
    and "attempt (snd (env i)) = Inl error"
    and "retries > 0" and "\<not> str_includes (message error) ''Rate limit''"
  shows "secureFetch env i requestLog url options retries
         = (fst (secureFetch env (Suc i) requestLog' url options (retries - 1)),
            fst (snd (secureFetch env (Suc i) requestLog' url options (retries - 1))),
            Fetch url (options\<lparr>headers := merge_headers (headers options)\<rparr>)
            # Delay (RETRY_DELAY * (MAX_RETRIES - retries + 1))
            # snd (snd (secureFetch env (Suc i) requestLog' url options (retries - 1))))"
  using assms
  by (subst secureFetch.simps) (simp add: case_prod_beta)

text \<open>Every request the wrapper issues is the one it was called with.\<close>

lemma secureFetch_requests:
  "requests (snd (snd (secureFetch env i requestLog url options retries)))
   = replicate (length (requests (snd (snd (secureFetch env i requestLog url options retries)))))
       (url, options\<lparr>headers := merge_headers (headers options)\<rparr>)"
proof (induction env i requestLog url options retries rule: secureFetch.induct)
  case (1 env i requestLog url options retries)
  obtain r requestLog' where chk: "checkRateLimit (fst (env i)) requestLog = (r, requestLog')"
    by (cases "checkRateLimit (fst (env i)) requestLog")
  show ?case
  proof (cases r)
    case (Inl limited)
    then show ?thesis using chk by (simp add: secureFetch_limited)
  next
    case (Inr u)
    note ok = chk [unfolded Inr]
    show ?thesis
    proof (cases "attempt (snd (env i))")
      case (Inr parsed)
      then show ?thesis using ok by (simp add: secureFetch_success)
    next
      case (Inl error)
      show ?thesis
      proof (cases "retries > 0 \<and> \<not> str_includes (message error) ''Rate limit''")
        case False
        then show ?thesis using ok Inl by (simp add: secureFetch_give_up)
      next
        case True
        then have again: "0 < retries" "\<not> str_includes (message error) ''Rate limit''"
          by simp_all
        have ih: "requests (snd (snd (secureFetch env (Suc i) requestLog' url options (retries - 1))))
                  = replicate (length (requests (snd (snd
                        (secureFetch env (Suc i) requestLog' url options (retries - 1))))))
                      (url, options\<lparr>headers := merge_headers (headers options)\<rparr>)"
          using "1.IH" [OF ok [symmetric] refl refl Inl] True by simp
        show ?thesis
          unfolding secureFetch_retry [where env = env and i = i, OF ok Inl again]
          using ih by simp
      qed
    qed
  qed
qed




section \<open>Resilient fetch wrapper and API service: claims\<close>




text \<open>
  C5. Whatever the retry budget, an invocation whose rate-limit check keeps 100 or more
  entries returns the rate-limit error at once: no request is issued and no wait is
  made, and the log is left as purged.
\<close>

theorem rate_limit_rejection_propagates:
  assumes "100 \<le> length (filter (\<lambda>t. fst (env i) - 60000 < t) requestLog)"
  shows "secureFetch env i requestLog url options retries
         = (Inl (Error ''Rate limit exceeded. Please wait.''),
            filter (\<lambda>t. fst (env i) - 60000 < t) requestLog, [])"
proof -
  have "checkRateLimit (fst (env i)) requestLog
        = (Inl (Error ''Rate limit exceeded. Please wait.''),
           filter (\<lambda>t. fst (env i) - 60000 < t) requestLog)"
    using assms
    by (simp add: checkRateLimit_def Let_def RATE_LIMIT_WINDOW_def MAX_REQUESTS_PER_WINDOW_def)
  then show ?thesis
    by (rule secureFetch_limited)
qed

theorem rate_limit_rejection_propagates_witness:
  "100 \<le> length (filter (\<lambda>t. fst (answers 0) - 60000 < t) (replicate 100 0))
   \<and> secureFetch answers 0 (replicate 100 0) ''u'' no_options 3
     = (Inl (Error ''Rate limit exceeded. Please wait.''), replicate 100 0, [])"
proof -
  have h: "100 \<le> length (filter (\<lambda>t. fst (answers 0) - 60000 < t) (replicate 100 0))"
    by (simp add: answers_def)
  show ?thesis
    using h rate_limit_rejection_propagates [where env = answers and i = 0, OF h, of "''u''" no_options 3]
    by (simp add: answers_def)
qed

text \<open>
  C7. With \<open>isAddress\<close> standing for the library's address test: an input that fails
  the test makes the balance lookup fail with the error \<^verbatim>\<open>Invalid address\<close>, with no
  request issued and the request log untouched; an input that passes is handed to the
  fetch wrapper with the balance URL, no options and the default retry budget.
\<close>

theorem api_getBalance_checks_address_first:
  "(\<not> isAddress address \<longrightarrow>
      api_getBalance isAddress env i requestLog address
      = (Inl (Error ''Invalid address''), requestLog, []))
   \<and> (isAddress address \<longrightarrow>
        api_getBalance isAddress env i requestLog address
        = secureFetch env i requestLog
            (''http://127.0.0.1:3333/api/v1/token/balance/'' @ address) no_options 3)"
  by (simp add: api_getBalance_def API_BASE_def MAX_RETRIES_def)

theorem api_getBalance_checks_address_first_witness:
  "\<not> forty_digits ''not-an-address''
   \<and> api_getBalance forty_digits answers 0 [5] ''not-an-address''
     = (Inl (Error ''Invalid address''), [5], [])
   \<and> forty_digits ''0x0000000000000000000000000000000000000000''
   \<and> api_getBalance forty_digits answers 0 [5] ''0x0000000000000000000000000000000000000000''
     = secureFetch answers 0 [5]
         (''http://127.0.0.1:3333/api/v1/token/balance/''
          @ ''0x0000000000000000000000000000000000000000'') no_options 3"
proof -
  have n: "\<not> forty_digits ''not-an-address''"
    by (simp add: forty_digits_def)
  have y: "forty_digits ''0x0000000000000000000000000000000000000000''"
    by (simp add: forty_digits_def is_digit_def)
  show ?thesis
    using n y
      api_getBalance_checks_address_first [of forty_digits "''not-an-address''" answers 0 "[5]"]
      api_getBalance_checks_address_first
        [of forty_digits "''0x0000000000000000000000000000000000000000''" answers 0 "[5]"]
    by simp
qed

text \<open>
  C1, as stated, fails: the sanitizer deletes the angle brackets and nothing between
  them, so the alert type submitted for \<^verbatim>\<open><script>flood</script>\<close> is
  \<^verbatim>\<open>scriptflood/script\<close>, not \<^verbatim>\<open>flood\<close>.
\<close>

theorem createAlert_body_counterexample:
  "sanitizeInput (JStr ''<script>flood</script>'') = JStr ''scriptflood/script''
   \<and> createAlert_sanitized the_alert
     \<noteq> [(''disasterType'', JStr ''flood''), (''region'', JStr ''Lagos''), (''riskScore'', JInt 100)]"
  by (simp add: createAlert_sanitized_def the_alert_def sanitizeInput_def
      strip_angle_brackets_def trim_def is_space_def starts_with_ci_def on_handler_match_def
      ascii_lower_def is_upper_def)

text \<open>
  C1, amended. For the input \<^verbatim>\<open>{disasterType: "<script>flood</script>", region:
  "  Lagos  ", riskScore: 150}\<close> the sanitized object is \<^verbatim>\<open>{disasterType:
  "scriptflood/script", region: "Lagos", riskScore: 100}\<close>; every request the operation
  issues, whatever the network does, is a POST to the alerts URL with the JSON text of
  that object as body; and against a server that answers at once it issues exactly one.
\<close>

theorem createAlert_submits_sanitized_body:
  \<open>createAlert_sanitized the_alert
     = [(''disasterType'', JStr ''scriptflood/script''), (''region'', JStr ''Lagos''),
        (''riskScore'', JInt 100)]
   \<and> requests (snd (snd (createAlert env i requestLog the_alert)))
     = replicate (length (requests (snd (snd (createAlert env i requestLog the_alert)))))
         (''http://127.0.0.1:3333/api/v1/disaster/alerts'',
          \<lparr>http_method = Some ''POST'',
           body = Some ''{"disasterType":"scriptflood/script","region":"Lagos","riskScore":100}'',
           headers = [(''Content-Type'', ''application/json'')]\<rparr>)
   \<and> length (requests (snd (snd (createAlert answers 0 [] the_alert)))) = 1\<close>
proof -
  have obj: "createAlert_sanitized the_alert
     = [(''disasterType'', JStr ''scriptflood/script''), (''region'', JStr ''Lagos''),
        (''riskScore'', JInt 100)]"
    by (simp add: createAlert_sanitized_def the_alert_def sanitizeInput_def
        strip_angle_brackets_def trim_def is_space_def starts_with_ci_def on_handler_match_def
        ascii_lower_def is_upper_def parseInt_def js_to_string_def int_string_def
        dec_string.simps digit_char_def is_digit_def digits_value_def digit_value_def Let_def)
  have json: \<open>JSON_stringify [(''disasterType'', JStr ''scriptflood/script''),
                (''region'', JStr ''Lagos''), (''riskScore'', JInt 100)]
             = ''{"disasterType":"scriptflood/script","region":"Lagos","riskScore":100}''\<close>
    by (simp add: JSON_stringify_def json_value_def json_string_def json_escape_char_def
        int_string_def dec_string.simps digit_char_def)
  have opts: \<open>\<lparr>http_method = Some ''POST'',
                 body = Some (JSON_stringify (createAlert_sanitized the_alert)),
                 headers = merge_headers []\<rparr>
              = \<lparr>http_method = Some ''POST'',
                 body = Some ''{"disasterType":"scriptflood/script","region":"Lagos","riskScore":100}'',
                 headers = [(''Content-Type'', ''application/json'')]\<rparr>\<close>
    unfolding obj json by (simp add: merge_headers_def)
  have all: \<open>requests (snd (snd (createAlert env i requestLog the_alert)))
     = replicate (length (requests (snd (snd (createAlert env i requestLog the_alert)))))
         (''http://127.0.0.1:3333/api/v1/disaster/alerts'',
          \<lparr>http_method = Some ''POST'',
           body = Some ''{"disasterType":"scriptflood/script","region":"Lagos","riskScore":100}'',
           headers = [(''Content-Type'', ''application/json'')]\<rparr>)\<close>
    for env :: "nat \<Rightarrow> int \<times> 'j fetch_outcome" and i requestLog
    using secureFetch_requests [of env i requestLog "API_BASE @ ''/disaster/alerts''"
        "\<lparr>http_method = Some ''POST'',
          body = Some (JSON_stringify (createAlert_sanitized the_alert)), headers = []\<rparr>"
        MAX_RETRIES]
    unfolding createAlert_def by (simp add: opts API_BASE_def)
  have one: "length (requests (snd (snd (createAlert answers 0 [] the_alert)))) = 1"
    by (simp add: createAlert_def secureFetch.simps answers_def checkRateLimit_def attempt_def
        response_ok_def Let_def RATE_LIMIT_WINDOW_def MAX_REQUESTS_PER_WINDOW_def)
  show ?thesis
    using obj all one by blast
qed

section \<open>Contract hooks: claims\<close>

lemma own_lookup:
  assumes "table key = Some v"
  shows "js_get table key = Some (Own v)"
  using assms by (simp add: js_get_def)

lemma absent_lookup:
  assumes "table key = None" and "key \<notin> set object_prototype_members"
  shows "js_get table key = None"
  using assms by (simp add: js_get_def)

lemma inherited_lookup:
  assumes "table key = None" and "key \<in> set object_prototype_members"
  shows "js_get table key = Some (Inherited key)"
  using assms by (simp add: js_get_def)

lemma lookup_of_inherited_name:
  assumes "key \<in> set object_prototype_members"
  shows "js_get table key \<noteq> None"
  using assms by (simp add: js_get_def split: option.splits)

lemma token_name_not_inherited: "''KAIToken'' \<notin> set object_prototype_members"
  by (simp add: object_prototype_members_def)

lemma shipped_addresses_empty:
  "addresses getContractConfig contractName = None
   \<or> addresses getContractConfig contractName = Some ''''"
  by (simp add: getContractConfig_def CONTRACT_ADDRESSES_def DEFAULT_NETWORK_def)

lemma getContract_not_configured:
  assumes "addresses config contractName = Some ''''
           \<or> (contractName \<notin> set object_prototype_members
               \<and> (addresses config contractName = None \<or> abis config contractName = None))"
  shows "getContract config env contractName withSigner
         = (Inl (Error (''Contract '' @ contractName @ '' not configured'')), [])"
  using assms
  by (auto simp: getContract_def js_get_def split: option.splits)

lemma getContract_no_provider:
  assumes "addresses config contractName = Some a" and "a \<noteq> ''''"
    and "abis config contractName = Some abi" and "\<not> has_ethereum env"
  shows "getContract config env contractName withSigner
         = (Inl (Error ''No wallet provider found''), [ProviderLookup])"
  using assms by (simp add: getContract_def own_lookup getProvider_def)

lemma getContract_inherited:
  assumes "contractName \<in> set object_prototype_members"
    and "addresses config contractName = None"
  shows "getContract config env contractName False
         = (if has_ethereum env then (Inl (target_error env), [ProviderLookup])
            else (Inl (Error ''No wallet provider found''), [ProviderLookup]))"
proof -
  have a: "js_get (addresses config) contractName = Some (Inherited contractName)"
    using assms by (simp add: js_get_def)
  obtain abi where b: "js_get (abis config) contractName = Some abi"
    using lookup_of_inherited_name [OF assms(1), of "abis config"] by blast
  show ?thesis
    by (simp add: getContract_def a b getProvider_def new_Contract_def)
qed

text \<open>
  C6, as stated, fails in three places. An interface that is present but has no entries
  passes the check, and the contract is created. With both halves present and a wallet
  injected, a contract asked for with a signer is not created when the wallet refuses
  the signer: the wallet's error comes back. And a name that no table lists, but that
  every object inherits a member for, passes the check although nothing is configured
  for it: the provider is looked up and the library's constructor is reached.
\<close>

theorem getContract_counterexample:
  "abis bare_interface ''Probe'' = Some []
   \<and> getContract bare_interface wallet_grants ''Probe'' False
     = (Inr \<lparr>target = ''0x5FbDB2315678afecb367f032d93F642f64180aa3'', interface = [],
             contract_runner = ProviderRunner\<rparr>, [ProviderLookup])
   \<and> addresses deployed ''KAIToken'' = Some ''0x5FbDB2315678afecb367f032d93F642f64180aa3''
   \<and> abis deployed ''KAIToken'' \<noteq> None
   \<and> has_ethereum wallet_grants \<and> has_ethereum wallet_refuses
   \<and> fst (getContract deployed wallet_refuses ''KAIToken'' True)
     = Inl \<lparr>code = Some 4001, message = ''User rejected the request.''\<rparr>
   \<and> addresses getContractConfig ''constructor'' = None
   \<and> abis getContractConfig ''constructor'' = None
   \<and> getContract getContractConfig wallet_grants ''constructor'' False
     = (Inl (Error ''invalid value for Contract target''), [ProviderLookup])"
  by (simp add: bare_interface_def deployed_def wallet_grants_def wallet_refuses_def
      invalid_target_def getContract_def js_get_def object_prototype_members_def
      new_Contract_def getProvider_def getSigner_def getContractConfig_def ABIS_def
      CONTRACT_ADDRESSES_def DEFAULT_NETWORK_def)

text \<open>
  C6, amended. Take a contract name other than the names of the members every object
  inherits (\<^verbatim>\<open>constructor\<close>, \<^verbatim>\<open>toString\<close> and the like). Instantiation fails with
  the error \<^verbatim>\<open>Contract <name> not configured\<close> when the configured address is absent
  or the empty string, or the interface for the name is absent; the failure comes
  before the provider is looked up, whatever the wallet is. For any name, an address
  that is the empty string fails so. When the address is a non-empty string, the
  interface is present and a wallet is injected, instantiation succeeds for a
  read-only contract, and for a contract with signer when the wallet hands the signer
  out. With the address table as shipped, every instantiation under such a name fails
  as not configured. Under an inherited name with no address entry the check passes
  and the provider is looked up: a read-only instantiation ends in the error of the
  library's constructor, or in \<^verbatim>\<open>No wallet provider found\<close>.
\<close>

theorem getContract_checks_configuration_first:
  "(addresses config contractName = Some ''''
      \<or> (contractName \<notin> set object_prototype_members
          \<and> (addresses config contractName = None \<or> abis config contractName = None))
    \<longrightarrow> getContract config env contractName withSigner
        = (Inl (Error (''Contract '' @ contractName @ '' not configured'')), []))
   \<and> (addresses config contractName = Some a \<and> a \<noteq> '''' \<and> abis config contractName = Some abi
      \<and> has_ethereum env \<and> (withSigner \<longrightarrow> signer_result env = Inr s)
      \<longrightarrow> fst (getContract config env contractName withSigner)
          = Inr \<lparr>target = a, interface = abi,
                 contract_runner = (if withSigner then SignerRunner (Some s) else ProviderRunner)\<rparr>)
   \<and> (contractName \<notin> set object_prototype_members
      \<longrightarrow> getContract getContractConfig env contractName withSigner
          = (Inl (Error (''Contract '' @ contractName @ '' not configured'')), []))
   \<and> (contractName \<in> set object_prototype_members \<and> addresses config contractName = None
      \<longrightarrow> getContract config env contractName False
          = (if has_ethereum env then (Inl (target_error env), [ProviderLookup])
             else (Inl (Error ''No wallet provider found''), [ProviderLookup])))"
proof (intro conjI impI)
  assume "addresses config contractName = Some ''''
      \<or> (contractName \<notin> set object_prototype_members
          \<and> (addresses config contractName = None \<or> abis config contractName = None))"
  then show "getContract config env contractName withSigner
        = (Inl (Error (''Contract '' @ contractName @ '' not configured'')), [])"
    by (rule getContract_not_configured)
next
  assume "addresses config contractName = Some a \<and> a \<noteq> '''' \<and> abis config contractName = Some abi
      \<and> has_ethereum env \<and> (withSigner \<longrightarrow> signer_result env = Inr s)"
  then show "fst (getContract config env contractName withSigner)
          = Inr \<lparr>target = a, interface = abi,
                 contract_runner = (if withSigner then SignerRunner (Some s) else ProviderRunner)\<rparr>"
    by (simp add: getContract_def own_lookup getProvider_def getSigner_def new_Contract_def)
next
  assume "contractName \<notin> set object_prototype_members"
  then show "getContract getContractConfig env contractName withSigner
     = (Inl (Error (''Contract '' @ contractName @ '' not configured'')), [])"
    using shipped_addresses_empty [of contractName]
    by (intro getContract_not_configured) blast
next
  assume "contractName \<in> set object_prototype_members \<and> addresses config contractName = None"
  then show "getContract config env contractName False
          = (if has_ethereum env then (Inl (target_error env), [ProviderLookup])
             else (Inl (Error ''No wallet provider found''), [ProviderLookup]))"
    by (intro getContract_inherited) simp_all
qed

theorem getContract_checks_configuration_first_witness:
  "''KAIToken'' \<notin> set object_prototype_members
   \<and> addresses getContractConfig ''KAIToken'' = Some ''''
   \<and> getContract getContractConfig no_wallet ''KAIToken'' True
     = (Inl (Error ''Contract KAIToken not configured''), [])
   \<and> addresses deployed ''KAIToken'' = Some ''0x5FbDB2315678afecb367f032d93F642f64180aa3''
   \<and> abis deployed ''KAIToken'' = ABIS ''KAIToken'' \<and> ABIS ''KAIToken'' \<noteq> None
   \<and> has_ethereum wallet_grants \<and> signer_result wallet_grants = Inr ()
   \<and> fst (getContract deployed wallet_grants ''KAIToken'' True)
     = Inr \<lparr>target = ''0x5FbDB2315678afecb367f032d93F642f64180aa3'',
            interface = the (ABIS ''KAIToken''),
            contract_runner = SignerRunner (Some ())\<rparr>
   \<and> ''toString'' \<in> set object_prototype_members
   \<and> addresses deployed ''toString'' = None
   \<and> getContract deployed wallet_grants ''toString'' False
     = (Inl (target_error wallet_grants), [ProviderLookup])"
proof -
  have n0: "''KAIToken'' \<notin> set object_prototype_members"
    by (rule token_name_not_inherited)
  have a0: "addresses getContractConfig ''KAIToken'' = Some ''''"
    by (simp add: getContractConfig_def CONTRACT_ADDRESSES_def DEFAULT_NETWORK_def)
  have a1: "addresses deployed ''KAIToken'' = Some ''0x5FbDB2315678afecb367f032d93F642f64180aa3''"
    by (simp add: deployed_def)
  have b1: "abis deployed ''KAIToken'' = ABIS ''KAIToken''"
    by (simp add: deployed_def getContractConfig_def)
  obtain abi where b2: "ABIS ''KAIToken'' = Some abi"
    by (simp add: ABIS_def)
  have w: "has_ethereum wallet_grants" "signer_result wallet_grants = Inr ()"
    by (simp_all add: wallet_grants_def)
  have n2: "''toString'' \<in> set object_prototype_members"
    by (simp add: object_prototype_members_def)
  have a2: "addresses deployed ''toString'' = None"
    by (simp add: deployed_def getContractConfig_def CONTRACT_ADDRESSES_def DEFAULT_NETWORK_def)
  note first = getContract_checks_configuration_first
      [of getContractConfig "''KAIToken''" no_wallet True]
  note second = getContract_checks_configuration_first
      [of deployed "''KAIToken''" wallet_grants True
          "''0x5FbDB2315678afecb367f032d93F642f64180aa3''" abi "()"]
  note third = getContract_checks_configuration_first
      [of deployed "''toString''" wallet_grants False]
  show ?thesis
    using n0 a0 a1 b1 b2 w n2 a2 first second third by simp
qed

section \<open>Wallet hook: claims\<close>

text \<open>
  C8. For a network of the static table: when the wallet answers the switch request
  with an error of code 4902, the operation sends the add-network request built from
  the table entry (chain id in hexadecimal, name, RPC URL, native currency, explorer
  URL if there is one); when that request fails too, the operation returns
  \<^verbatim>\<open>false\<close> with the message of that failure in the error slot, and the account and
  chain id of the connection state are as before.
\<close>

theorem switchNetwork_adds_unknown_network:
  assumes "NETWORKS networkId = Some net"
    and "ethereum (wallet_switchEthereumChain (''0x'' @ hex_string (chainId net))) = Inl switchError"
    and "code switchError = Some 4902"
  shows "snd (snd (switchNetwork type_error ethereum st networkId))
         = [wallet_switchEthereumChain (''0x'' @ hex_string (chainId net)),
            wallet_addEthereumChain (''0x'' @ hex_string (chainId net)) (name net) [rpcUrl net]
              (currency net) (if explorer net = '''' then [] else [explorer net])]
         \<and> (ethereum (wallet_addEthereumChain (''0x'' @ hex_string (chainId net)) (name net)
                 [rpcUrl net] (currency net) (if explorer net = '''' then [] else [explorer net]))
              = Inl addError
            \<longrightarrow> fst (switchNetwork type_error ethereum st networkId) = False
                \<and> fst (snd (switchNetwork type_error ethereum st networkId))
                  = st\<lparr>wallet_error := Some (message addError)\<rparr>
                \<and> account (fst (snd (switchNetwork type_error ethereum st networkId))) = account st
                \<and> wallet_chainId (fst (snd (switchNetwork type_error ethereum st networkId)))
                  = wallet_chainId st)"
  using assms
  by (auto simp: switchNetwork_def own_lookup chain_id_hex_def Let_def split: sum.splits)

theorem switchNetwork_adds_unknown_network_witness:
  "NETWORKS ''amoy''
     = Some \<lparr>chainId = 80002, name = ''Polygon Amoy Testnet'',
             rpcUrl = ''https://rpc-amoy.polygon.technology'',
             explorer = ''https://www.oklink.com/amoy'',
             currency = \<lparr>currency_name = ''MATIC'', currency_symbol = ''MATIC'',
                         currency_decimals = 18\<rparr>\<rparr>
   \<and> unknown_chain_refused (wallet_switchEthereumChain ''0x13882'')
     = Inl \<lparr>code = Some 4902, message = ''Unrecognized chain ID''\<rparr>
   \<and> snd (snd (switchNetwork ''Cannot read properties of undefined'' unknown_chain_refused connected ''amoy''))
     = [wallet_switchEthereumChain ''0x13882'',
        wallet_addEthereumChain ''0x13882'' ''Polygon Amoy Testnet''
          [''https://rpc-amoy.polygon.technology'']
          \<lparr>currency_name = ''MATIC'', currency_symbol = ''MATIC'', currency_decimals = 18\<rparr>
          [''https://www.oklink.com/amoy'']]
   \<and> fst (switchNetwork ''Cannot read properties of undefined'' unknown_chain_refused connected ''amoy'') = False
   \<and> fst (snd (switchNetwork ''Cannot read properties of undefined'' unknown_chain_refused connected ''amoy''))
     = connected\<lparr>wallet_error := Some ''User rejected the request.''\<rparr>
   \<and> account (fst (snd (switchNetwork ''Cannot read properties of undefined'' unknown_chain_refused connected ''amoy'')))
     = Some ''0x70997970C51812dc3A010C7d01b50e0d17dc79C8''
   \<and> wallet_chainId (fst (snd (switchNetwork ''Cannot read properties of undefined'' unknown_chain_refused connected ''amoy'')))
     = Some 137"
proof -
  let ?net = "\<lparr>chainId = 80002, name = ''Polygon Amoy Testnet'',
             rpcUrl = ''https://rpc-amoy.polygon.technology'',
             explorer = ''https://www.oklink.com/amoy'',
             currency = \<lparr>currency_name = ''MATIC'', currency_symbol = ''MATIC'',
                         currency_decimals = 18\<rparr>\<rparr>"
  have hx: "hex_string 80002 = ''13882''"
    by (simp add: hex_string.simps digit_char_def)
  have n: "NETWORKS ''amoy'' = Some ?net"
    by (simp add: NETWORKS_def)
  have s: "unknown_chain_refused (wallet_switchEthereumChain (''0x'' @ hex_string (chainId ?net)))
           = Inl \<lparr>code = Some 4902, message = ''Unrecognized chain ID''\<rparr>"
    by (simp add: unknown_chain_refused_def)
  have c: "code \<lparr>code = Some 4902, message = ''Unrecognized chain ID''\<rparr> = Some 4902"
    by simp
  have a: "unknown_chain_refused (wallet_addEthereumChain ''0x13882'' ''Polygon Amoy Testnet''
          [''https://rpc-amoy.polygon.technology'']
          \<lparr>currency_name = ''MATIC'', currency_symbol = ''MATIC'', currency_decimals = 18\<rparr>
          [''https://www.oklink.com/amoy''])
           = Inl \<lparr>code = Some 4001, message = ''User rejected the request.''\<rparr>"
    by (simp add: unknown_chain_refused_def)
  show ?thesis
    using n a switchNetwork_adds_unknown_network
        [where ethereum = unknown_chain_refused and net = ?net, OF n s c, of "''Cannot read properties of undefined''" connected
        "\<lparr>code = Some 4001, message = ''User rejected the request.''\<rparr>"]
    by (simp add: hx unknown_chain_refused_def connected_def)
qed

section \<open>Token amounts: lemmas\<close>

lemma digit_char_is_digit:
  assumes "k < 10"
  shows "is_digit (digit_char k) \<and> digit_value (digit_char k) = k"
proof -
  from assms have "k \<in> {0, 1, 2, 3, 4, 5, 6, 7, 8, 9}" by auto
  then show ?thesis
    by (auto simp: digit_char_def is_digit_def digit_value_def)
qed

lemma dec_string_digits: "list_all is_digit (dec_string n)"
proof (induction n rule: dec_string.induct)
  case (1 n)
  show ?case
  proof (cases "n < 10")
    case True
    then show ?thesis
      by (subst dec_string.simps) (simp add: digit_char_is_digit)
  next
    case False
    then have "list_all is_digit (dec_string (n div 10))"
      using "1.IH" by simp
    moreover have "is_digit (digit_char (n mod 10))"
      by (simp add: digit_char_is_digit)
    ultimately show ?thesis
      using False by (subst dec_string.simps) simp
  qed
qed

lemma dec_string_nonempty: "dec_string n \<noteq> []"
  by (subst dec_string.simps) simp

lemma digits_value_snoc:
  "digits_value r (ds @ [c]) = r * digits_value r ds + digit_value c"
  by (simp add: digits_value_def)

lemma digits_value_append:
  "digits_value 10 (xs @ ys) = digits_value 10 xs * 10 ^ length ys + digits_value 10 ys"
proof (induction ys rule: rev_induct)
  case Nil
  show ?case by (simp add: digits_value_def)
next
  case (snoc y ys)
  have "digits_value 10 (xs @ ys @ [y]) = 10 * digits_value 10 (xs @ ys) + digit_value y"
    using digits_value_snoc [of 10 "xs @ ys" y] by simp
  also have "\<dots> = 10 * (digits_value 10 xs * 10 ^ length ys + digits_value 10 ys) + digit_value y"
    using snoc.IH by simp
  also have "\<dots> = digits_value 10 xs * 10 ^ length (ys @ [y]) + digits_value 10 (ys @ [y])"
    by (simp add: digits_value_snoc algebra_simps)
  finally show ?case .
qed

lemma dec_string_value: "digits_value 10 (dec_string n) = n"
proof (induction n rule: dec_string.induct)
  case (1 n)
  show ?case
  proof (cases "n < 10")
    case True
    then show ?thesis
      by (subst dec_string.simps) (simp add: digits_value_def digit_char_is_digit)
  next
    case False
    then have "digits_value 10 (dec_string (n div 10)) = n div 10"
      using "1.IH" by simp
    then show ?thesis
      using False
      by (subst dec_string.simps) (simp add: digits_value_snoc digit_char_is_digit)
  qed
qed

lemma digits_value_zeros: "digits_value 10 (replicate k CHR ''0'') = 0"
  by (induction k) (simp_all add: digits_value_def digit_value_def is_digit_def)

lemma digits_value_leading_zeros:
  "digits_value 10 (replicate k CHR ''0'' @ ds) = digits_value 10 ds"
  by (simp add: digits_value_append digits_value_zeros)

lemma zero_is_digit: "is_digit CHR ''0''"
  by (simp add: is_digit_def)

lemma point_no_digit: "\<not> is_digit CHR ''.''" "\<not> is_digit CHR ''-''"
  by (simp_all add: is_digit_def)

lemma strip_trailing_zeros_restore:
  assumes "length s = d" and "0 < d"
  shows "take d (strip_trailing_zeros s @ replicate (d - length (strip_trailing_zeros s)) CHR ''0'') = s"
proof -
  let ?z = "\<lambda>c. c = CHR ''0''"
  let ?t = "rev (dropWhile ?z (rev s))"
  have split: "s = ?t @ rev (takeWhile ?z (rev s))"
    by (metis rev_append rev_rev_ident takeWhile_dropWhile_id)
  have zeros: "rev (takeWhile ?z (rev s)) = replicate (length s - length ?t) CHR ''0''"
  proof -
    have "\<forall>c \<in> set (takeWhile ?z (rev s)). c = CHR ''0''"
      by (metis (mono_tags, lifting) set_takeWhileD)
    then have "takeWhile ?z (rev s) = replicate (length (takeWhile ?z (rev s))) CHR ''0''"
      by (simp add: replicate_length_same)
    moreover have "length (takeWhile ?z (rev s)) = length s - length ?t"
      using split by (metis add_diff_cancel_left' length_append length_rev)
    ultimately show ?thesis by (metis rev_replicate)
  qed
  show ?thesis
  proof (cases "?t = []")
    case False
    then have "strip_trailing_zeros s = ?t"
      unfolding strip_trailing_zeros_def Let_def by (simp only: if_False)
    then show ?thesis
      using split zeros assms by (metis order_refl take_all_iff)
  next
    case True
    then have st: "strip_trailing_zeros s = ''0''"
      by (simp add: strip_trailing_zeros_def Let_def)
    have "s = replicate d CHR ''0''"
      using split zeros True assms by simp
    moreover have "''0'' @ replicate (d - 1) CHR ''0'' = replicate d CHR ''0''"
      using assms(2) by (cases d) simp_all
    ultimately show ?thesis
      unfolding st by simp
  qed
qed

lemma strip_trailing_zeros_digits:
  assumes "list_all is_digit s"
  shows "list_all is_digit (strip_trailing_zeros s)"
    and "strip_trailing_zeros s \<noteq> []"
    and "length s \<noteq> 0 \<Longrightarrow> length (strip_trailing_zeros s) \<le> length s"
proof -
  let ?t = "rev (dropWhile (\<lambda>c. c = CHR ''0'') (rev s))"
  have "set ?t \<subseteq> set s"
    by (metis set_dropWhileD set_rev subsetI)
  then have "list_all is_digit ?t"
    using assms by (auto simp: list_all_iff)
  then show "list_all is_digit (strip_trailing_zeros s)"
    by (simp add: strip_trailing_zeros_def Let_def zero_is_digit)
  show "strip_trailing_zeros s \<noteq> []"
    by (simp add: strip_trailing_zeros_def Let_def)
  have "length ?t \<le> length s"
    by (metis length_dropWhile_le length_rev)
  then show "length s \<noteq> 0 \<Longrightarrow> length (strip_trailing_zeros s) \<le> length s"
    by (cases s) (auto simp: strip_trailing_zeros_def Let_def)
qed

lemma take1_digits:
  assumes "list_all is_digit ds" and "ds \<noteq> []"
  shows "take 1 (ds @ rest) \<noteq> ''-''" and "take 1 (ds @ rest) \<noteq> ''.''"
  using assms point_no_digit by (cases ds; auto)+

lemma scan_digits:
  assumes "list_all is_digit ds" and "rest = [] \<or> \<not> is_digit (hd rest)"
  shows "takeWhile is_digit (ds @ rest) = ds" and "dropWhile is_digit (ds @ rest) = rest"
proof -
  have a: "\<forall>c \<in> set ds. is_digit c"
    using assms(1) by (simp add: list_all_iff)
  have b: "takeWhile is_digit rest = []" "dropWhile is_digit rest = rest"
    using assms(2) by (cases rest; auto)+
  show "takeWhile is_digit (ds @ rest) = ds"
    using a b by (simp add: takeWhile_append2)
  show "dropWhile is_digit (ds @ rest) = rest"
    using a b by (simp add: dropWhile_append2)
qed

text \<open>Parsing a rendering: whole part, point, fraction of at most \<open>d\<close> digits.\<close>

lemma parseUnits_unsigned:
  assumes w: "list_all is_digit whole" "whole \<noteq> []"
    and f: "list_all is_digit fraction" "length fraction \<le> d"
  shows "parseUnits (whole @ ''.'' @ fraction) d
         = Some (int (digits_value 10
             (whole @ take d (fraction @ replicate (d - length fraction) CHR ''0''))))"
proof -
  define s where "s = whole @ ''.'' @ fraction"
  have t: "take 1 s \<noteq> ''-''"
    unfolding s_def by (rule take1_digits [OF w])
  have s1: "takeWhile is_digit s = whole"
    and s2: "dropWhile is_digit s = CHR ''.'' # fraction"
    unfolding s_def using scan_digits [OF w(1), of "''.'' @ fraction"] point_no_digit by simp_all
  have "parseUnits s d
         = Some (int (digits_value 10
             (whole @ take d (fraction @ replicate (d - length fraction) CHR ''0''))))"
    unfolding parseUnits_def Let_def using t f w by (simp add: s1 s2)
  then show ?thesis
    by (simp add: s_def)
qed

lemma parseUnits_signed:
  assumes w: "list_all is_digit whole" "whole \<noteq> []"
    and f: "list_all is_digit fraction" "length fraction \<le> d"
  shows "parseUnits (''-'' @ whole @ ''.'' @ fraction) d
         = Some (- int (digits_value 10
             (whole @ take d (fraction @ replicate (d - length fraction) CHR ''0''))))"
proof -
  define s where "s = whole @ ''.'' @ fraction"
  have s1: "takeWhile is_digit s = whole"
    and s2: "dropWhile is_digit s = CHR ''.'' # fraction"
    unfolding s_def using scan_digits [OF w(1), of "''.'' @ fraction"] point_no_digit by simp_all
  have "parseUnits (CHR ''-'' # s) d
         = Some (- int (digits_value 10
             (whole @ take d (fraction @ replicate (d - length fraction) CHR ''0''))))"
    unfolding parseUnits_def Let_def using f w by (simp add: s1 s2)
  then show ?thesis
    by (simp add: s_def)
qed

lemma parseUnits_integer:
  assumes w: "list_all is_digit whole" "whole \<noteq> []"
  shows "parseUnits whole 0 = Some (int (digits_value 10 whole))"
    and "parseUnits (''-'' @ whole) 0 = Some (- int (digits_value 10 whole))"
proof -
  have t: "take 1 whole \<noteq> ''-''"
    using take1_digits(1) [OF w, of "[]"] by simp
  have s1: "takeWhile is_digit whole = whole" and s2: "dropWhile is_digit whole = []"
    using scan_digits [OF w(1), of "[]"] by simp_all
  show "parseUnits whole 0 = Some (int (digits_value 10 whole))"
    unfolding parseUnits_def Let_def using t w by (simp add: s1 s2)
  have "parseUnits (CHR ''-'' # whole) 0 = Some (- int (digits_value 10 whole))"
    unfolding parseUnits_def Let_def using w by (simp add: s1 s2)
  then show "parseUnits (''-'' @ whole) 0 = Some (- int (digits_value 10 whole))"
    by simp
qed

text \<open>The rendering of a magnitude with the point \<open>d\<close> digits from the right, \<open>d > 0\<close>.\<close>

lemma format_parts:
  fixes n d :: nat
  assumes "0 < d"
  defines "padded \<equiv> replicate (Suc d - length (dec_string n)) CHR ''0'' @ dec_string n"
  shows "list_all is_digit (take (length padded - d) padded)"
    and "take (length padded - d) padded \<noteq> []"
    and "list_all is_digit (strip_trailing_zeros (drop (length padded - d) padded))"
    and "length (strip_trailing_zeros (drop (length padded - d) padded)) \<le> d"
    and "digits_value 10 (take (length padded - d) padded
           @ take d (strip_trailing_zeros (drop (length padded - d) padded)
               @ replicate (d - length (strip_trailing_zeros (drop (length padded - d) padded)))
                   CHR ''0'')) = n"
proof -
  have dig: "list_all is_digit padded"
    unfolding padded_def using dec_string_digits [of n] zero_is_digit
    by (auto simp: list_all_iff)
  have len: "d < length padded"
    unfolding padded_def by simp
  have fl: "length (drop (length padded - d) padded) = d"
    using len by simp
  have fd: "list_all is_digit (drop (length padded - d) padded)"
    using dig by (metis append_take_drop_id list_all_append)
  show "list_all is_digit (take (length padded - d) padded)"
    using dig by (metis append_take_drop_id list_all_append)
  show "take (length padded - d) padded \<noteq> []"
    using len by (cases padded) auto
  show "list_all is_digit (strip_trailing_zeros (drop (length padded - d) padded))"
    by (rule strip_trailing_zeros_digits(1) [OF fd])
  show "length (strip_trailing_zeros (drop (length padded - d) padded)) \<le> d"
    using strip_trailing_zeros_digits(3) [OF fd] fl assms(1) by simp
  have "take d (strip_trailing_zeros (drop (length padded - d) padded)
               @ replicate (d - length (strip_trailing_zeros (drop (length padded - d) padded)))
                   CHR ''0'') = drop (length padded - d) padded"
    by (rule strip_trailing_zeros_restore [OF fl assms(1)])
  then have "digits_value 10 (take (length padded - d) padded
           @ take d (strip_trailing_zeros (drop (length padded - d) padded)
               @ replicate (d - length (strip_trailing_zeros (drop (length padded - d) padded)))
                   CHR ''0'')) = digits_value 10 padded"
    by simp
  also have "\<dots> = n"
    unfolding padded_def by (simp add: digits_value_leading_zeros dec_string_value)
  finally show "digits_value 10 (take (length padded - d) padded
           @ take d (strip_trailing_zeros (drop (length padded - d) padded)
               @ replicate (d - length (strip_trailing_zeros (drop (length padded - d) padded)))
                   CHR ''0'')) = n" .
qed

lemma parse_format_units: "parseUnits (formatUnits n d) d = Some n"
proof (cases "d = 0")
  case True
  have dg: "list_all is_digit (dec_string k)" "dec_string k \<noteq> []" for k
    by (rule dec_string_digits, rule dec_string_nonempty)
  show ?thesis
  proof (cases "n < 0")
    case False
    then show ?thesis
      using True parseUnits_integer(1) [OF dg [of "nat n"]]
      by (simp add: formatUnits_def int_string_def dec_string_value)
  next
    case neg: True
    then show ?thesis
      using True parseUnits_integer(2) [OF dg [of "nat (- n)"]]
      by (simp add: formatUnits_def int_string_def dec_string_value)
  qed
next
  case False
  then have pos: "0 < d" by simp
  define padded where
    "padded = replicate (Suc d - length (dec_string (nat \<bar>n\<bar>))) CHR ''0'' @ dec_string (nat \<bar>n\<bar>)"
  define whole where "whole = take (length padded - d) padded"
  define fraction where "fraction = strip_trailing_zeros (drop (length padded - d) padded)"
  note parts = format_parts [where n = "nat \<bar>n\<bar>", OF pos, folded padded_def, folded whole_def fraction_def]
  have fmt: "formatUnits n d = (if n < 0 then ''-'' else []) @ whole @ ''.'' @ fraction"
    using False by (simp add: formatUnits_def Let_def padded_def whole_def fraction_def)
  show ?thesis
  proof (cases "n < 0")
    case False
    then show ?thesis
      unfolding fmt using parseUnits_unsigned [OF parts(1,2,3,4)] parts(5) by simp
  next
    case True
    then show ?thesis
      unfolding fmt using parseUnits_signed [OF parts(1,2,3,4)] parts(5) by simp
  qed
qed

lemma char_from_code:
  assumes "(of_char c :: nat) = of_char d"
  shows "c = d"
  using assms by simp

lemma digit_is_listed:
  assumes "is_digit c"
  shows "c \<in> set ''0123456789''"
proof -
  have r: "48 \<le> (of_char c :: nat)" "(of_char c :: nat) \<le> 57"
    using assms by (simp_all add: is_digit_def)
  have "(of_char c :: nat) = 48 \<or> (of_char c :: nat) = 49 \<or> (of_char c :: nat) = 50
        \<or> (of_char c :: nat) = 51 \<or> (of_char c :: nat) = 52 \<or> (of_char c :: nat) = 53
        \<or> (of_char c :: nat) = 54 \<or> (of_char c :: nat) = 55 \<or> (of_char c :: nat) = 56
        \<or> (of_char c :: nat) = 57"
    using r by presburger
  then have "c = CHR ''0'' \<or> c = CHR ''1'' \<or> c = CHR ''2'' \<or> c = CHR ''3'' \<or> c = CHR ''4''
        \<or> c = CHR ''5'' \<or> c = CHR ''6'' \<or> c = CHR ''7'' \<or> c = CHR ''8'' \<or> c = CHR ''9''"
    using char_from_code [of c "CHR ''0''"] char_from_code [of c "CHR ''1''"]
      char_from_code [of c "CHR ''2''"] char_from_code [of c "CHR ''3''"]
      char_from_code [of c "CHR ''4''"] char_from_code [of c "CHR ''5''"]
      char_from_code [of c "CHR ''6''"] char_from_code [of c "CHR ''7''"]
      char_from_code [of c "CHR ''8''"] char_from_code [of c "CHR ''9''"]
    by simp blast
  then show ?thesis
    by auto
qed

lemma digit_value_props:
  assumes "is_digit c"
  shows "digit_value c < 10" and "digit_char (digit_value c) = c"
    and "digit_value c = 0 \<longleftrightarrow> c = CHR ''0''"
  using digit_is_listed [OF assms]
  by (auto simp: digit_value_def is_digit_def digit_char_def)

lemma dec_string_step:
  assumes "v < 10"
  shows "dec_string (10 * a + v) = (if a = 0 then [digit_char v] else dec_string a @ [digit_char v])"
  using assms by (subst dec_string.simps) simp

lemma dec_string_of_digits:
  assumes "list_all is_digit ds"
  shows "dec_string (digits_value 10 ds) = strip_leading_zeros ds
         \<and> (digits_value 10 ds = 0 \<longleftrightarrow> dropWhile (\<lambda>c. c = CHR ''0'') ds = [])"
  using assms
proof (induction ds rule: rev_induct)
  case Nil
  show ?case
    by (simp add: digits_value_def strip_leading_zeros_def dec_string.simps digit_char_def)
next
  case (snoc c ds)
  then have ih: "dec_string (digits_value 10 ds) = strip_leading_zeros ds"
    and zero: "digits_value 10 ds = 0 \<longleftrightarrow> dropWhile (\<lambda>c. c = CHR ''0'') ds = []"
    and dc: "is_digit c"
    by simp_all
  note v = digit_value_props [OF dc]
  have val: "digits_value 10 (ds @ [c]) = 10 * digits_value 10 ds + digit_value c"
    by (rule digits_value_snoc)
  show ?case
  proof (cases "dropWhile (\<lambda>c. c = CHR ''0'') ds = []")
    case True
    then have a0: "digits_value 10 ds = 0"
      using zero by simp
    have dw: "dropWhile (\<lambda>c. c = CHR ''0'') (ds @ [c]) = (if c = CHR ''0'' then [] else [c])"
      using True by (simp add: dropWhile_append)
    have "dec_string (digits_value 10 (ds @ [c])) = [c]"
      unfolding val a0 using dec_string_step [OF v(1), of 0] v(2) by simp
    moreover have "strip_leading_zeros (ds @ [c]) = [c]"
      using dw v(3) by (auto simp: strip_leading_zeros_def Let_def simp del: dropWhile_eq_Nil_conv)
    moreover have "digit_value c = 0 \<longleftrightarrow> dropWhile (\<lambda>c. c = CHR ''0'') (ds @ [c]) = []"
      unfolding dw using v(3) by simp
    ultimately show ?thesis
      unfolding val a0 by simp
  next
    case False
    then have a1: "digits_value 10 ds \<noteq> 0"
      using zero by simp
    have dw: "dropWhile (\<lambda>c. c = CHR ''0'') (ds @ [c]) = dropWhile (\<lambda>c. c = CHR ''0'') ds @ [c]"
      using False by (auto simp: dropWhile_append)
    have "dec_string (digits_value 10 (ds @ [c])) = dec_string (digits_value 10 ds) @ [c]"
      unfolding val using dec_string_step [OF v(1), of "digits_value 10 ds"] v(2) a1 by simp
    moreover have "strip_leading_zeros ds = dropWhile (\<lambda>c. c = CHR ''0'') ds"
      using False by (simp add: strip_leading_zeros_def Let_def del: dropWhile_eq_Nil_conv)
    moreover have "strip_leading_zeros (ds @ [c]) = dropWhile (\<lambda>c. c = CHR ''0'') ds @ [c]"
      unfolding strip_leading_zeros_def Let_def dw by simp
    moreover have "dropWhile (\<lambda>c. c = CHR ''0'') (ds @ [c]) \<noteq> []"
      unfolding dw by simp
    ultimately show ?thesis
      unfolding val using ih a1 by (simp del: dropWhile_eq_Nil_conv)
  qed
qed

lemma zeros_then_rest:
  "ds = replicate (length ds - length (dropWhile (\<lambda>c. c = CHR ''0'') ds)) CHR ''0''
        @ dropWhile (\<lambda>c. c = CHR ''0'') ds"
proof -
  let ?z = "\<lambda>c. c = CHR ''0''"
  have "\<forall>c \<in> set (takeWhile ?z ds). c = CHR ''0''"
    by (metis (mono_tags, lifting) set_takeWhileD)
  then have "takeWhile ?z ds = replicate (length (takeWhile ?z ds)) CHR ''0''"
    by (simp add: replicate_length_same)
  moreover have "length (takeWhile ?z ds) = length ds - length (dropWhile ?z ds)"
    by (metis add_diff_cancel_right' length_append takeWhile_dropWhile_id)
  ultimately have "takeWhile ?z ds = replicate (length ds - length (dropWhile ?z ds)) CHR ''0''"
    by simp
  then show ?thesis
    by (metis takeWhile_dropWhile_id)
qed

lemma pad_to_one_more:
  "replicate (Suc (length ds) - length (strip_leading_zeros ds)) CHR ''0'' @ strip_leading_zeros ds
   = CHR ''0'' # ds"
proof (cases "dropWhile (\<lambda>c. c = CHR ''0'') ds = []")
  case True
  then have all: "ds = replicate (length ds) CHR ''0''"
    using zeros_then_rest [of ds] by (simp del: dropWhile_eq_Nil_conv)
  have "replicate (length ds) CHR ''0'' @ ''0'' = CHR ''0'' # replicate (length ds) CHR ''0''"
    by (simp add: replicate_append_same)
  moreover have "strip_leading_zeros ds = ''0''"
    using True by (simp add: strip_leading_zeros_def Let_def del: dropWhile_eq_Nil_conv)
  ultimately show ?thesis
    using all by (metis One_nat_def diff_Suc_1 length_Cons list.size(3))
next
  case False
  let ?r = "dropWhile (\<lambda>c. c = CHR ''0'') ds"
  have le: "length ?r \<le> length ds"
    by (rule length_dropWhile_le)
  then have "Suc (length ds) - length ?r = Suc (length ds - length ?r)"
    by simp
  then have "replicate (Suc (length ds) - length ?r) CHR ''0'' @ ?r
             = CHR ''0'' # (replicate (length ds - length ?r) CHR ''0'' @ ?r)"
    by simp
  also have "\<dots> = CHR ''0'' # ds"
    using zeros_then_rest [of ds] by simp
  finally show ?thesis
    using False by (simp add: strip_leading_zeros_def Let_def del: dropWhile_eq_Nil_conv)
qed

lemma value_scaled:
  assumes "length fraction \<le> d"
  shows "digits_value 10 (whole @ fraction @ replicate (d - length fraction) CHR ''0'')
         = scaled d whole fraction"
proof -
  define zeros where "zeros = replicate (d - length fraction) CHR ''0''"
  have len: "length (fraction @ zeros) = d"
    using assms by (simp add: zeros_def)
  have b: "digits_value 10 (whole @ (fraction @ zeros))
           = digits_value 10 whole * 10 ^ d + digits_value 10 (fraction @ zeros)"
    using digits_value_append [of whole "fraction @ zeros"] len by simp
  have c: "digits_value 10 (fraction @ zeros)
           = digits_value 10 fraction * 10 ^ (d - length fraction)"
    using digits_value_append [of fraction zeros] digits_value_zeros [of "d - length fraction"]
    by (simp add: zeros_def)
  show ?thesis
    using b c by (simp add: scaled_def zeros_def)
qed

lemma parseUnits_scan:
  assumes u: "(if take 1 v = ''-'' then drop 1 v else v) = u"
    and s1: "takeWhile is_digit u = whole" and s2: "dropWhile is_digit u = rest"
    and fr: "(if take 1 rest = ''.'' then drop 1 rest else rest) = fraction"
    and ok: "list_all is_digit fraction" "whole \<noteq> [] \<or> fraction \<noteq> []"
      "list_all (\<lambda>c. c = CHR ''0'') (drop d fraction)"
  shows "parseUnits v d
         = Some (if take 1 v = ''-''
                 then - int (digits_value 10
                        (whole @ take d (fraction @ replicate (d - length fraction) CHR ''0'')))
                 else int (digits_value 10
                        (whole @ take d (fraction @ replicate (d - length fraction) CHR ''0''))))"
  unfolding parseUnits_def Let_def u s1 s2 fr using ok by simp

lemma parseUnits_decimal_text:
  assumes w: "list_all is_digit whole" and f: "list_all is_digit fraction"
    and some: "whole \<noteq> [] \<or> fraction \<noteq> []" and len: "length fraction \<le> d"
    and pt: "\<not> pointed \<longrightarrow> fraction = []"
  shows "parseUnits (decimal_text negative whole pointed fraction) d
         = Some (if negative then - int (scaled d whole fraction)
                 else int (scaled d whole fraction))"
proof -
  define rest where "rest = (if pointed then CHR ''.'' # fraction else [])"
  define u where "u = whole @ rest"
  define v where "v = decimal_text negative whole pointed fraction"
  have pointed_if_bare: "whole = [] \<Longrightarrow> pointed"
    using some pt by blast
  have t: "take 1 u \<noteq> ''-''"
  proof (cases whole)
    case Nil
    then show ?thesis
      using pointed_if_bare by (simp add: u_def rest_def)
  next
    case (Cons c cs)
    then have "is_digit c" using w by simp
    then show ?thesis
      using Cons point_no_digit by (auto simp: u_def)
  qed
  have v: "v = (if negative then CHR ''-'' # u else u)"
    by (simp add: v_def decimal_text_def u_def rest_def)
  have neg: "take 1 v = ''-'' \<longleftrightarrow> negative"
    using t by (simp add: v)
  have uu: "(if take 1 v = ''-'' then drop 1 v else v) = u"
    unfolding neg by (simp add: v)
  have "rest = [] \<or> \<not> is_digit (hd rest)"
    using point_no_digit by (simp add: rest_def)
  then have s1: "takeWhile is_digit u = whole" and s2: "dropWhile is_digit u = rest"
    unfolding u_def using scan_digits [OF w, of rest] by simp_all
  have fr: "(if take 1 rest = ''.'' then drop 1 rest else rest) = fraction"
    using pt by (simp add: rest_def)
  have pad: "take d (fraction @ replicate (d - length fraction) CHR ''0'')
             = fraction @ replicate (d - length fraction) CHR ''0''"
    using len by simp
  have zs: "list_all (\<lambda>c. c = CHR ''0'') (drop d fraction)"
    using len by simp
  have val: "digits_value 10 (whole @ fraction @ replicate (d - length fraction) CHR ''0'')
             = scaled d whole fraction"
    by (rule value_scaled [OF len])
  have "parseUnits v d
         = Some (if negative then - int (scaled d whole fraction)
                 else int (scaled d whole fraction))"
    unfolding parseUnits_scan [OF uu s1 s2 fr f some zs] neg pad val ..
  then show ?thesis
    by (simp add: v_def)
qed

lemma strip_trailing_zeros_padding:
  "strip_trailing_zeros (xs @ replicate k CHR ''0'') = strip_trailing_zeros xs"
proof -
  have "dropWhile (\<lambda>c. c = CHR ''0'') (replicate k CHR ''0'' @ rev xs)
        = dropWhile (\<lambda>c. c = CHR ''0'') (rev xs)"
    by (rule dropWhile_append2) simp
  then have "dropWhile (\<lambda>c. c = CHR ''0'') (rev (xs @ replicate k CHR ''0''))
        = dropWhile (\<lambda>c. c = CHR ''0'') (rev xs)"
    by simp
  then show ?thesis
    unfolding strip_trailing_zeros_def by (rule arg_cong)
qed

lemma formatUnits_shape:
  assumes "0 < d"
    and "replicate (Suc d - length (dec_string (nat \<bar>v\<bar>))) CHR ''0'' @ dec_string (nat \<bar>v\<bar>)
         = lw @ fz"
    and "length fz = d"
  shows "formatUnits v d = (if v < 0 then ''-'' else []) @ lw @ ''.'' @ strip_trailing_zeros fz"
  unfolding formatUnits_def Let_def assms(2) using assms(1,3) by simp

lemma padded_scaled:
  assumes w: "list_all is_digit whole" and f: "list_all is_digit fraction"
    and len: "length fraction \<le> d"
  shows "replicate (Suc d - length (dec_string (scaled d whole fraction))) CHR ''0''
           @ dec_string (scaled d whole fraction)
         = strip_leading_zeros whole @ fraction @ replicate (d - length fraction) CHR ''0''"
proof -
  let ?z = "\<lambda>c. c = CHR ''0''"
  define fz where "fz = fraction @ replicate (d - length fraction) CHR ''0''"
  have lfz: "length fz = d"
    using len by (simp add: fz_def)
  have dfz: "list_all is_digit fz"
    using f zero_is_digit by (auto simp: fz_def list_all_iff)
  have dx: "list_all is_digit (whole @ fz)"
    using w dfz by simp
  have val: "scaled d whole fraction = digits_value 10 (whole @ fz)"
    unfolding fz_def by (rule value_scaled [OF len, symmetric])
  have dec: "dec_string (scaled d whole fraction) = strip_leading_zeros (whole @ fz)"
    unfolding val using dec_string_of_digits [OF dx] by (rule conjunct1)
  show ?thesis
  proof (cases "dropWhile ?z whole = []")
    case True
    then have all: "\<forall>c \<in> set whole. c = CHR ''0''"
      by simp
    then have "dropWhile ?z (whole @ fz) = dropWhile ?z fz"
      by simp
    then have same: "strip_leading_zeros (whole @ fz) = strip_leading_zeros fz"
      by (simp add: strip_leading_zeros_def)
    have lw: "strip_leading_zeros whole = ''0''"
      using True by (simp add: strip_leading_zeros_def Let_def del: dropWhile_eq_Nil_conv)
    have "replicate (Suc d - length (strip_leading_zeros fz)) CHR ''0'' @ strip_leading_zeros fz
          = CHR ''0'' # fz"
      using pad_to_one_more [of fz] lfz by simp
    then show ?thesis
      unfolding dec same lw fz_def [symmetric] by simp
  next
    case False
    then have some: "\<not> (\<forall>c \<in> set whole. c = CHR ''0'')"
      by simp
    then have dw: "dropWhile ?z (whole @ fz) = dropWhile ?z whole @ fz"
      by (auto simp: dropWhile_append)
    have lw: "strip_leading_zeros whole = dropWhile ?z whole"
      using False by (simp add: strip_leading_zeros_def Let_def del: dropWhile_eq_Nil_conv)
    have sx: "strip_leading_zeros (whole @ fz) = dropWhile ?z whole @ fz"
      unfolding strip_leading_zeros_def Let_def dw using False
      by (simp del: dropWhile_eq_Nil_conv)
    have "length (dropWhile ?z whole) \<noteq> 0"
      using False by (simp del: dropWhile_eq_Nil_conv)
    then have "Suc d \<le> length (dropWhile ?z whole) + length fz"
      unfolding lfz by linarith
    then have "Suc d - length (dropWhile ?z whole @ fz) = 0"
      by (simp del: dropWhile_eq_Nil_conv)
    then show ?thesis
      unfolding dec sx lw fz_def [symmetric] by simp
  qed
qed

lemma formatUnits_scaled:
  assumes w: "list_all is_digit whole" and f: "list_all is_digit fraction"
    and len: "length fraction \<le> d"
  shows "formatUnits (if negative then - int (scaled d whole fraction)
                      else int (scaled d whole fraction)) d
         = normal_form d negative whole fraction"
proof -
  define n where "n = scaled d whole fraction"
  define v where "v = (if negative then - int n else int n)"
  have mag: "nat \<bar>v\<bar> = n"
    by (simp add: v_def)
  have sgn: "v < 0 \<longleftrightarrow> negative \<and> n \<noteq> 0"
    by (simp add: v_def)
  show ?thesis
  proof (cases "d = 0")
    case True
    then have "fraction = []"
      using len by simp
    then have "n = digits_value 10 whole"
      using True by (simp add: n_def scaled_def digits_value_def)
    then have dec: "dec_string n = strip_leading_zeros whole"
      using dec_string_of_digits [OF w] by simp
    have "int_string v = (if v < 0 then ''-'' else []) @ dec_string (nat \<bar>v\<bar>)"
      by (simp add: int_string_def)
    then have "formatUnits v d = (if negative \<and> n \<noteq> 0 then ''-'' else []) @ strip_leading_zeros whole"
      using True sgn by (simp add: formatUnits_def mag dec)
    moreover have "normal_form d negative whole fraction
          = (if negative \<and> n \<noteq> 0 then ''-'' else []) @ strip_leading_zeros whole"
      using True by (simp add: normal_form_def n_def)
    ultimately have "formatUnits v d = normal_form d negative whole fraction"
      by (simp only:)
    then show ?thesis
      unfolding v_def n_def .
  next
    case False
    then have pos: "0 < d" by simp
    define fz where "fz = fraction @ replicate (d - length fraction) CHR ''0''"
    have lfz: "length fz = d"
      using len by (simp add: fz_def)
    have "replicate (Suc d - length (dec_string (nat \<bar>v\<bar>))) CHR ''0'' @ dec_string (nat \<bar>v\<bar>)
          = strip_leading_zeros whole @ fz"
      unfolding mag n_def fz_def by (rule padded_scaled [OF w f len])
    from formatUnits_shape [OF pos this lfz]
    have "formatUnits v d = (if v < 0 then ''-'' else []) @ strip_leading_zeros whole
                            @ ''.'' @ strip_trailing_zeros fraction"
      by (simp add: fz_def strip_trailing_zeros_padding)
    moreover have "normal_form d negative whole fraction
          = (if v < 0 then ''-'' else []) @ strip_leading_zeros whole
            @ ''.'' @ strip_trailing_zeros fraction"
      using False sgn by (simp add: normal_form_def n_def)
    ultimately have "formatUnits v d = normal_form d negative whole fraction"
      by (simp only:)
    then show ?thesis
      unfolding v_def n_def .
  qed
qed

section \<open>Token amounts: claim\<close>

text \<open>
  C4, as stated, fails on the conversions as the spec describes them: the round trip
  from a decimal string through the integer and back is not the identity on every
  decimal string within the precision. At 2 decimals \<^verbatim>\<open>1.50\<close> is the integer 150,
  which is written \<^verbatim>\<open>1.5\<close>, and \<^verbatim>\<open>1\<close> is the integer 100, which is written
  \<^verbatim>\<open>1.0\<close>.
\<close>

theorem units_round_trip_counterexample:
  "decimal_text False ''1'' True ''50'' = ''1.50''
   \<and> parseUnits ''1.50'' 2 = Some 150 \<and> formatUnits 150 2 = ''1.5''
   \<and> formatUnits 150 2 \<noteq> ''1.50''
   \<and> decimal_text False ''1'' False [] = ''1''
   \<and> parseUnits ''1'' 2 = Some 100 \<and> formatUnits 100 2 = ''1.0''
   \<and> formatUnits 100 2 \<noteq> ''1''"
  by (simp add: decimal_text_def parseUnits_def formatUnits_def strip_trailing_zeros_def
      is_digit_def digits_value_def digit_value_def dec_string.simps digit_char_def Let_def
      numeral_2_eq_2)

text \<open>
  C4, amended. Take any decimal string: an optional minus sign, digits \<open>whole\<close>,
  and optionally a point and digits \<open>fraction\<close>, with a digit somewhere and at most
  \<open>d\<close> digits after the point. It parses to exactly
  \<open>whole * 10^d + fraction * 10^(d - length fraction)\<close> with its sign, in integer
  arithmetic, and that integer is written back as the normal spelling of the string:
  the minus sign kept only for a value other than zero, the whole part without zeros
  in front, and for \<open>d > 0\<close> a point and the fraction without zeros at the end, one
  digit kept on each side. A string already spelled so comes back letter for letter;
  in particular \<^verbatim>\<open>123.456\<close> with 18 decimals is 123456000000000000000 and comes
  back as \<^verbatim>\<open>123.456\<close>. In the other direction, formatting any integer and
  parsing the result gives the integer back.
\<close>

theorem units_round_trip_normalises:
  assumes "list_all is_digit whole" and "list_all is_digit fraction"
    and "whole \<noteq> [] \<or> fraction \<noteq> []" and "length fraction \<le> d"
    and "\<not> pointed \<longrightarrow> fraction = []"
  shows "parseUnits (decimal_text negative whole pointed fraction) d
           = Some (if negative then - int (scaled d whole fraction)
                   else int (scaled d whole fraction))
         \<and> formatUnits (if negative then - int (scaled d whole fraction)
                        else int (scaled d whole fraction)) d
           = normal_form d negative whole fraction
         \<and> (0 < d \<and> pointed \<and> strip_leading_zeros whole = whole
              \<and> strip_trailing_zeros fraction = fraction
              \<and> (negative \<longrightarrow> scaled d whole fraction \<noteq> 0)
            \<longrightarrow> formatUnits (if negative then - int (scaled d whole fraction)
                             else int (scaled d whole fraction)) d
                = decimal_text negative whole pointed fraction)
         \<and> parseUnits (formatUnits n d) d = Some n
         \<and> parseUnits ''123.456'' 18 = Some 123456000000000000000
         \<and> formatUnits 123456000000000000000 18 = ''123.456''"
proof (intro conjI impI)
  show "parseUnits (decimal_text negative whole pointed fraction) d
           = Some (if negative then - int (scaled d whole fraction)
                   else int (scaled d whole fraction))"
    by (rule parseUnits_decimal_text [OF assms])
  show written: "formatUnits (if negative then - int (scaled d whole fraction)
                        else int (scaled d whole fraction)) d
           = normal_form d negative whole fraction"
    by (rule formatUnits_scaled [OF assms(1,2,4)])
  show "parseUnits (formatUnits n d) d = Some n"
    by (rule parse_format_units)
  have digits: "list_all is_digit ''123''" "list_all is_digit ''456''"
    "''123'' \<noteq> [] \<or> ''456'' \<noteq> []" "length ''456'' \<le> (18::nat)" "\<not> True \<longrightarrow> ''456'' = []"
    by (simp_all add: is_digit_def)
  have "parseUnits (decimal_text False ''123'' True ''456'') 18
        = Some (if False then - int (scaled 18 ''123'' ''456'') else int (scaled 18 ''123'' ''456''))"
    by (rule parseUnits_decimal_text [OF digits])
  then show "parseUnits ''123.456'' 18 = Some 123456000000000000000"
    by (simp add: decimal_text_def scaled_def digits_value_def digit_value_def is_digit_def)
  show "formatUnits 123456000000000000000 18 = ''123.456''"
    by (simp add: formatUnits_def strip_trailing_zeros_def dec_string.simps digit_char_def Let_def)
  assume canon: "0 < d \<and> pointed \<and> strip_leading_zeros whole = whole
              \<and> strip_trailing_zeros fraction = fraction
              \<and> (negative \<longrightarrow> scaled d whole fraction \<noteq> 0)"
  then have "normal_form d negative whole fraction = decimal_text negative whole pointed fraction"
    by (auto simp: normal_form_def decimal_text_def)
  then show "formatUnits (if negative then - int (scaled d whole fraction)
                             else int (scaled d whole fraction)) d
                = decimal_text negative whole pointed fraction"
    using written by (simp only:)
qed

theorem units_round_trip_normalises_witness:
  "list_all is_digit ''123'' \<and> list_all is_digit ''456'' \<and> ''123'' \<noteq> []
   \<and> length ''456'' \<le> (18::nat)
   \<and> strip_leading_zeros ''123'' = ''123'' \<and> strip_trailing_zeros ''456'' = ''456''
   \<and> decimal_text False ''123'' True ''456'' = ''123.456''
   \<and> parseUnits ''123.456'' 18 = Some (int (scaled 18 ''123'' ''456''))
   \<and> formatUnits (int (scaled 18 ''123'' ''456'')) 18 = ''123.456''
   \<and> list_all is_digit ''007'' \<and> list_all is_digit [] \<and> length ([] :: string) \<le> (2::nat)
   \<and> decimal_text True ''007'' False [] = ''-007''
   \<and> parseUnits ''-007'' 2 = Some (- int (scaled 2 ''007'' []))
   \<and> formatUnits (- int (scaled 2 ''007'' [])) 2 = ''-7.0''"
proof -
  have a: "list_all is_digit ''123''" "list_all is_digit ''456''"
    "''123'' \<noteq> [] \<or> ''456'' \<noteq> []" "length ''456'' \<le> (18::nat)" "\<not> True \<longrightarrow> ''456'' = []"
    by (simp_all add: is_digit_def)
  have b: "list_all is_digit ''007''" "list_all is_digit []"
    "''007'' \<noteq> [] \<or> ([] :: string) \<noteq> []" "length ([] :: string) \<le> (2::nat)"
    "\<not> False \<longrightarrow> ([] :: string) = []"
    by (simp_all add: is_digit_def)
  have ca: "strip_leading_zeros ''123'' = ''123''" "strip_trailing_zeros ''456'' = ''456''"
    by (simp_all add: strip_leading_zeros_def strip_trailing_zeros_def)
  have ta: "decimal_text False ''123'' True ''456'' = ''123.456''"
    by (simp add: decimal_text_def)
  have tb: "decimal_text True ''007'' False [] = ''-007''"
    by (simp add: decimal_text_def)
  have nb: "normal_form 2 True ''007'' [] = ''-7.0''"
    by (simp add: normal_form_def scaled_def strip_leading_zeros_def strip_trailing_zeros_def
        digits_value_def digit_value_def is_digit_def)
  note ia = units_round_trip_normalises [OF a, of False 0]
  note ib = units_round_trip_normalises [OF b, of True 0]
  have a1: "parseUnits (decimal_text False ''123'' True ''456'') 18
            = Some (int (scaled 18 ''123'' ''456''))"
    using ia by simp
  have ante: "0 < (18::nat) \<and> True \<and> strip_leading_zeros ''123'' = ''123''
              \<and> strip_trailing_zeros ''456'' = ''456''
              \<and> (False \<longrightarrow> scaled 18 ''123'' ''456'' \<noteq> 0)"
    using ca by simp
  have "formatUnits (if False then - int (scaled 18 ''123'' ''456'')
                     else int (scaled 18 ''123'' ''456'')) 18
        = decimal_text False ''123'' True ''456''"
    using ia [THEN conjunct2, THEN conjunct2, THEN conjunct1] ante by (rule mp)
  then have a3: "formatUnits (int (scaled 18 ''123'' ''456'')) 18
            = decimal_text False ''123'' True ''456''"
    by simp
  have b1: "parseUnits (decimal_text True ''007'' False []) 2 = Some (- int (scaled 2 ''007'' []))"
    using ib by simp
  have b2: "formatUnits (- int (scaled 2 ''007'' [])) 2 = normal_form 2 True ''007'' []"
    using ib by simp
  show ?thesis
    using a(1,2,4) b(1,2,4) ca a1 a3 b1 b2
    unfolding ta tb nb by simp
qed

section \<open>Token hook: claims\<close>

lemma formatUnits_has_point:
  assumes "0 < d"
  shows "formatUnits v d \<noteq> ''0''"
proof -
  have "CHR ''.'' \<in> set (formatUnits v d)"
    using assms by (simp add: formatUnits_def Let_def)
  then show ?thesis
    by auto
qed

lemma formatUnits_zero:
  assumes "0 < d"
  shows "formatUnits 0 d = ''0.0''"
proof -
  have digits: "list_all is_digit ''0''" "list_all is_digit []"
    by (simp_all add: is_digit_def)
  have z: "scaled d ''0'' [] = 0"
    by (simp add: scaled_def digits_value_def digit_value_def is_digit_def)
  have "formatUnits (if False then - int (scaled d ''0'' []) else int (scaled d ''0'' [])) d
        = normal_form d False ''0'' []"
    by (rule formatUnits_scaled [OF digits]) simp
  then show ?thesis
    using assms
    by (simp add: z normal_form_def strip_leading_zeros_def strip_trailing_zeros_def)
qed

lemma getBalance_failed:
  assumes "fst (getContract config env ''KAIToken'' False) = Inl e"
  shows "getBalance format_units config env calls st address
         = (''0'', \<lparr>loading = False, token_error = Some (message e)\<rparr>)"
  using assms by (simp add: getBalance_def Let_def)

text \<open>
  C10, as stated, fails in its conclusion. With the token at 18 decimals and the
  formatting call answering with the rendering of the token-amount section, a read of
  a balance that is really zero returns \<^verbatim>\<open>0.0\<close>, and a read that fails returns
  \<^verbatim>\<open>0\<close>: the return value alone tells them apart.
\<close>

theorem getBalance_counterexample:
  "getBalance renders deployed wallet_grants holds_nothing idle holder
     = (''0.0'', \<lparr>loading = False, token_error = None\<rparr>)
   \<and> getBalance renders deployed wallet_grants node_down idle holder
     = (''0'', \<lparr>loading = False, token_error = Some ''could not detect network''\<rparr>)
   \<and> fst (getBalance renders deployed wallet_grants holds_nothing idle holder)
     \<noteq> fst (getBalance renders deployed wallet_grants node_down idle holder)"
proof -
  have z: "formatUnits 0 18 = ''0.0''"
    by (rule formatUnits_zero) simp
  obtain abi where b: "abis deployed ''KAIToken'' = Some abi"
    by (simp add: deployed_def getContractConfig_def ABIS_def)
  have c: "fst (getContract deployed wallet_grants ''KAIToken'' False)
           = Inr \<lparr>target = ''0x5FbDB2315678afecb367f032d93F642f64180aa3'', interface = abi,
                  contract_runner = ProviderRunner\<rparr>"
    using b
    by (simp add: getContract_def own_lookup deployed_def getProvider_def wallet_grants_def
        new_Contract_def)
  have ok: "getBalance renders deployed wallet_grants holds_nothing idle holder
     = (''0.0'', \<lparr>loading = False, token_error = None\<rparr>)"
    by (simp add: getBalance_def Let_def c holds_nothing_def renders_def z idle_def)
  have bad: "getBalance renders deployed wallet_grants node_down idle holder
     = (''0'', \<lparr>loading = False, token_error = Some ''could not detect network''\<rparr>)"
    by (simp add: getBalance_def Let_def c node_down_def Error_def idle_def)
  show ?thesis
    unfolding ok bad by simp
qed

text \<open>
  C10, amended. Whichever step of the balance read fails (the contract is not
  configured, no wallet is injected, the balance call fails, the decimals call fails,
  the formatting call throws), the operation returns the string \<^verbatim>\<open>0\<close>, not null,
  with the message of the failure in the error slot and the loading flag cleared. A
  read that succeeds returns the text of the formatting call with an empty error slot.
  Where that text is the rendering of the token-amount section and the token has one
  decimal or more, it is never \<^verbatim>\<open>0\<close>, and for a balance of zero it is \<^verbatim>\<open>0.0\<close>: the
  return value tells a genuine zero from a failure. Only at zero decimals is a zero
  balance written \<^verbatim>\<open>0\<close>. With the address table as shipped the read always fails as
  not configured.
\<close>

theorem getBalance_failure_returns_zero_string:
  "(fst (getContract config env ''KAIToken'' False) = Inl e
    \<longrightarrow> getBalance format_units config env calls st address
        = (''0'', \<lparr>loading = False, token_error = Some (message e)\<rparr>))
   \<and> (fst (getContract config env ''KAIToken'' False) = Inr c \<and> balanceOf calls address = Inl e
      \<longrightarrow> getBalance format_units config env calls st address
          = (''0'', \<lparr>loading = False, token_error = Some (message e)\<rparr>))
   \<and> (fst (getContract config env ''KAIToken'' False) = Inr c \<and> balanceOf calls address = Inr b
        \<and> decimals_call calls = Inl e
      \<longrightarrow> getBalance format_units config env calls st address
          = (''0'', \<lparr>loading = False, token_error = Some (message e)\<rparr>))
   \<and> (fst (getContract config env ''KAIToken'' False) = Inr c \<and> balanceOf calls address = Inr b
        \<and> decimals_call calls = Inr d \<and> format_units b d = Inl e
      \<longrightarrow> getBalance format_units config env calls st address
          = (''0'', \<lparr>loading = False, token_error = Some (message e)\<rparr>))
   \<and> (fst (getContract config env ''KAIToken'' False) = Inr c \<and> balanceOf calls address = Inr b
        \<and> decimals_call calls = Inr d \<and> format_units b d = Inr shown
      \<longrightarrow> getBalance format_units config env calls st address
          = (shown, \<lparr>loading = False, token_error = None\<rparr>))
   \<and> (addresses config ''KAIToken'' = Some a \<and> a \<noteq> '''' \<and> abis config ''KAIToken'' = Some abi
        \<and> \<not> has_ethereum env
      \<longrightarrow> getBalance format_units config env calls st address
          = (''0'', \<lparr>loading = False, token_error = Some ''No wallet provider found''\<rparr>))
   \<and> getBalance format_units getContractConfig env calls st address
     = (''0'', \<lparr>loading = False, token_error = Some ''Contract KAIToken not configured''\<rparr>)
   \<and> (fst (getContract config env ''KAIToken'' False) = Inr c \<and> balanceOf calls address = Inr b
        \<and> decimals_call calls = Inr d \<and> format_units b d = Inr (formatUnits b d) \<and> 0 < d
      \<longrightarrow> fst (getBalance format_units config env calls st address) = formatUnits b d
          \<and> fst (getBalance format_units config env calls st address) \<noteq> ''0'')
   \<and> (0 < d \<longrightarrow> formatUnits 0 d = ''0.0'')
   \<and> formatUnits 0 0 = ''0''"
proof (intro conjI impI)
  show "getBalance format_units getContractConfig env calls st address
     = (''0'', \<lparr>loading = False, token_error = Some ''Contract KAIToken not configured''\<rparr>)"
  proof -
    have "addresses getContractConfig ''KAIToken'' = Some ''''"
      by (simp add: getContractConfig_def CONTRACT_ADDRESSES_def DEFAULT_NETWORK_def)
    then have "getContract getContractConfig env ''KAIToken'' False
          = (Inl (Error (''Contract '' @ ''KAIToken'' @ '' not configured'')), [])"
      by (intro getContract_not_configured) simp
    then show ?thesis
      by (simp add: getBalance_def Let_def Error_def)
  qed
next
  assume "addresses config ''KAIToken'' = Some a \<and> a \<noteq> '''' \<and> abis config ''KAIToken'' = Some abi
        \<and> \<not> has_ethereum env"
  then have "getContract config env ''KAIToken'' False
          = (Inl (Error ''No wallet provider found''), [ProviderLookup])"
    by (intro getContract_no_provider [of config "''KAIToken''" a abi env]) simp_all
  then show "getBalance format_units config env calls st address
          = (''0'', \<lparr>loading = False, token_error = Some ''No wallet provider found''\<rparr>)"
    by (simp add: getBalance_def Let_def Error_def)
next
  assume h: "fst (getContract config env ''KAIToken'' False) = Inr c \<and> balanceOf calls address = Inr b
        \<and> decimals_call calls = Inr d \<and> format_units b d = Inr (formatUnits b d) \<and> 0 < d"
  then show "fst (getBalance format_units config env calls st address) = formatUnits b d"
    by (simp add: getBalance_def Let_def)
  then show "fst (getBalance format_units config env calls st address) \<noteq> ''0''"
    using h formatUnits_has_point [of d b] by simp
next
  assume "0 < d"
  then show "formatUnits 0 d = ''0.0''"
    by (rule formatUnits_zero)
next
  show "formatUnits 0 0 = ''0''"
    by (simp add: formatUnits_def int_string_def dec_string.simps digit_char_def)
qed (simp_all add: getBalance_def Let_def)

text \<open>
  The same at concrete inputs, with the token deployed and a wallet injected: the
  balance call failing, the decimals call failing, the formatting call throwing, and a
  balance of zero at 18 decimals; and the shipped configuration with no wallet.
\<close>

theorem getBalance_failure_returns_zero_string_witness:
  "fst (getContract deployed wallet_grants ''KAIToken'' False)
     = Inr \<lparr>target = ''0x5FbDB2315678afecb367f032d93F642f64180aa3'',
            interface = the (ABIS ''KAIToken''), contract_runner = ProviderRunner\<rparr>
   \<and> balanceOf node_down holder = Inl (Error ''could not detect network'')
   \<and> getBalance renders deployed wallet_grants node_down idle holder
     = (''0'', \<lparr>loading = False, token_error = Some ''could not detect network''\<rparr>)
   \<and> balanceOf decimals_down holder = Inr 5
   \<and> decimals_call decimals_down = Inl (Error ''call revert exception'')
   \<and> getBalance renders deployed wallet_grants decimals_down idle holder
     = (''0'', \<lparr>loading = False, token_error = Some ''call revert exception''\<rparr>)
   \<and> balanceOf holds_nothing holder = Inr 0 \<and> decimals_call holds_nothing = Inr 18
   \<and> format_throws 0 18 = Inl (Error ''invalid fixed format'')
   \<and> getBalance format_throws deployed wallet_grants holds_nothing idle holder
     = (''0'', \<lparr>loading = False, token_error = Some ''invalid fixed format''\<rparr>)
   \<and> renders 0 18 = Inr (formatUnits 0 18) \<and> (0::nat) < 18
   \<and> getBalance renders deployed wallet_grants holds_nothing idle holder
     = (''0.0'', \<lparr>loading = False, token_error = None\<rparr>)
   \<and> fst (getBalance renders deployed wallet_grants holds_nothing idle holder) \<noteq> ''0''
   \<and> fst (getContract getContractConfig no_wallet ''KAIToken'' False)
     = Inl (Error ''Contract KAIToken not configured'')
   \<and> getBalance renders getContractConfig no_wallet holds_nothing idle holder
     = (''0'', \<lparr>loading = False, token_error = Some ''Contract KAIToken not configured''\<rparr>)"
proof -
  let ?c = "\<lparr>target = ''0x5FbDB2315678afecb367f032d93F642f64180aa3'',
            interface = the (ABIS ''KAIToken''), contract_runner = ProviderRunner\<rparr> :: unit contract"
  have c: "fst (getContract deployed wallet_grants ''KAIToken'' False) = Inr ?c"
    by (simp add: getContract_def js_get_def deployed_def getContractConfig_def ABIS_def
        getProvider_def wallet_grants_def new_Contract_def)
  have n: "fst (getContract getContractConfig no_wallet ''KAIToken'' False)
           = Inl (Error ''Contract KAIToken not configured'')"
    by (simp add: getContract_def js_get_def getContractConfig_def ABIS_def
        CONTRACT_ADDRESSES_def DEFAULT_NETWORK_def)
  have down: "balanceOf node_down holder = Inl (Error ''could not detect network'')"
    by (simp add: node_down_def)
  have dec: "balanceOf decimals_down holder = Inr 5"
    "decimals_call decimals_down = Inl (Error ''call revert exception'')"
    by (simp_all add: decimals_down_def)
  have zero: "balanceOf holds_nothing holder = Inr 0" "decimals_call holds_nothing = Inr 18"
    by (simp_all add: holds_nothing_def)
  have thrown: "format_throws 0 18 = Inl (Error ''invalid fixed format'')"
    by (simp add: format_throws_def)
  have shown: "renders 0 18 = Inr (formatUnits 0 18)"
    by (simp add: renders_def)
  note t1 = getBalance_failure_returns_zero_string
      [where config = deployed and env = wallet_grants and calls = node_down and c = ?c
         and e = "Error ''could not detect network''" and format_units = renders
         and st = idle and address = holder]
  note t2 = getBalance_failure_returns_zero_string
      [where config = deployed and env = wallet_grants and calls = decimals_down and c = ?c
         and e = "Error ''call revert exception''" and format_units = renders
         and st = idle and address = holder and b = 5]
  note t3 = getBalance_failure_returns_zero_string
      [where config = deployed and env = wallet_grants and calls = holds_nothing and c = ?c
         and e = "Error ''invalid fixed format''" and format_units = format_throws
         and st = idle and address = holder and b = 0 and d = 18]
  note t4 = getBalance_failure_returns_zero_string
      [where config = deployed and env = wallet_grants and calls = holds_nothing and c = ?c
         and format_units = renders and st = idle and address = holder and b = 0 and d = 18
         and shown = "formatUnits 0 18"]
  note t5 = getBalance_failure_returns_zero_string
      [where config = getContractConfig and env = no_wallet and calls = holds_nothing
         and e = "Error ''Contract KAIToken not configured''" and format_units = renders
         and st = idle and address = holder]
  have m: "message (Error ''could not detect network'') = ''could not detect network''"
    "message (Error ''call revert exception'') = ''call revert exception''"
    "message (Error ''invalid fixed format'') = ''invalid fixed format''"
    "message (Error ''Contract KAIToken not configured'') = ''Contract KAIToken not configured''"
    by (simp_all add: Error_def)
  have r1: "getBalance renders deployed wallet_grants node_down idle holder
     = (''0'', \<lparr>loading = False, token_error = Some ''could not detect network''\<rparr>)"
    using t1 c down by (simp add: m)
  have r2: "getBalance renders deployed wallet_grants decimals_down idle holder
     = (''0'', \<lparr>loading = False, token_error = Some ''call revert exception''\<rparr>)"
    using t2 c dec by (simp add: m)
  have r3: "getBalance format_throws deployed wallet_grants holds_nothing idle holder
     = (''0'', \<lparr>loading = False, token_error = Some ''invalid fixed format''\<rparr>)"
    using t3 c zero thrown by (simp add: m)
  have z: "formatUnits 0 18 = ''0.0''"
    using t4 by simp
  have r4: "getBalance renders deployed wallet_grants holds_nothing idle holder
     = (''0.0'', \<lparr>loading = False, token_error = None\<rparr>)"
    using t4 c zero shown by (simp add: z)
  have r5: "getBalance renders getContractConfig no_wallet holds_nothing idle holder
     = (''0'', \<lparr>loading = False, token_error = Some ''Contract KAIToken not configured''\<rparr>)"
    using t5 n by (simp add: m)
  show ?thesis
    using c n down dec zero thrown shown r1 r2 r3 r4 r5 by simp
qed

end
